theory Spec2Isabelle
  imports Main "HOL-Library.AList"
begin

section \<open>JavaScript values\<close>

text \<open>
  The request builders of \<^verbatim>\<open>src/requests/delete-request.js\<close> and
  \<^verbatim>\<open>src/requests/patch-request.js\<close> (classes DeleteRequest, PatchRequest and
  PutRequest) branch on \<^verbatim>\<open>typeof\<close>, \<^verbatim>\<open>instanceof\<close>, truthiness and strict equality of
  their arguments, so arguments are JavaScript values. Every value of object kind carries
  the address of the object it refers to: two such values are the same object exactly when
  the addresses agree. A plain object also carries its own enumerable properties in
  insertion order, an array its elements, a Map its entries. A Filter instance is opaque
  (\<^verbatim>\<open>src/filter.js\<close> is not among the sources). Functions and classes carry their
  \<^verbatim>\<open>name\<close>. Numbers are integers: NaN, infinities and fractions are left out.
\<close>

type_synonym addr = nat

datatype jsval =
    Undefined
  | Null
  | Boolean bool
  | Number int
  | String string
  | Object addr "(string \<times> jsval) list"
  | Array addr "jsval list"
  | MapV addr "(jsval \<times> jsval) list"
  | FilterV addr
  | Function addr string

datatype jstype = TUndefined | TObject | TBoolean | TNumber | TString | TFunction

fun typeof :: "jsval \<Rightarrow> jstype" where
  "typeof Undefined = TUndefined"
| "typeof Null = TObject"
| "typeof (Boolean b) = TBoolean"
| "typeof (Number n) = TNumber"
| "typeof (String s) = TString"
| "typeof (Object a ps) = TObject"
| "typeof (Array a xs) = TObject"
| "typeof (MapV a es) = TObject"
| "typeof (FilterV a) = TObject"
| "typeof (Function a n) = TFunction"

text \<open>\<^verbatim>\<open>!!v\<close>: the falsy values are undefined, null, false, 0 and the empty string.\<close>

fun truthy :: "jsval \<Rightarrow> bool" where
  "truthy Undefined = False"
| "truthy Null = False"
| "truthy (Boolean b) = b"
| "truthy (Number n) = (n \<noteq> 0)"
| "truthy (String s) = (s \<noteq> [])"
| "truthy (Object a ps) = True"
| "truthy (Array a xs) = True"
| "truthy (MapV a es) = True"
| "truthy (FilterV a) = True"
| "truthy (Function a n) = True"

fun addr_of :: "jsval \<Rightarrow> addr option" where
  "addr_of (Object a ps) = Some a"
| "addr_of (Array a xs) = Some a"
| "addr_of (MapV a es) = Some a"
| "addr_of (FilterV a) = Some a"
| "addr_of (Function a n) = Some a"
| "addr_of v = None"

text \<open>\<^verbatim>\<open>a === b\<close>: primitives by value, objects by reference.\<close>

definition strict_eq :: "jsval \<Rightarrow> jsval \<Rightarrow> bool" where
  "strict_eq a b =
     (case addr_of a of
        Some x \<Rightarrow> (case addr_of b of Some y \<Rightarrow> x = y | None \<Rightarrow> False)
      | None \<Rightarrow> (case addr_of b of Some y \<Rightarrow> False | None \<Rightarrow> a = b))"

text \<open>\<^verbatim>\<open>Array.prototype.indexOf\<close>: the first index holding a strictly equal element, or -1.\<close>

fun indexOf_from :: "int \<Rightarrow> jsval list \<Rightarrow> jsval \<Rightarrow> int" where
  "indexOf_from i [] v = -1"
| "indexOf_from i (x # xs) v = (if strict_eq x v then i else indexOf_from (i + 1) xs v)"

definition indexOf :: "jsval list \<Rightarrow> jsval \<Rightarrow> int" where
  "indexOf xs v = indexOf_from 0 xs v"

fun isArray :: "jsval \<Rightarrow> bool" where
  "isArray (Array a xs) = True"
| "isArray v = False"

fun instanceof_Map :: "jsval \<Rightarrow> bool" where
  "instanceof_Map (MapV a es) = True"
| "instanceof_Map v = False"

fun instanceof_Filter :: "jsval \<Rightarrow> bool" where
  "instanceof_Filter (FilterV a) = True"
| "instanceof_Filter v = False"

text \<open>\<^verbatim>\<open>Array.prototype.flat()\<close> (one level) and \<^verbatim>\<open>flat(Infinity)\<close>.\<close>

fun flat1 :: "jsval list \<Rightarrow> jsval list" where
  "flat1 [] = []"
| "flat1 (Array a ys # xs) = ys @ flat1 xs"
| "flat1 (x # xs) = x # flat1 xs"

fun flat_value :: "jsval \<Rightarrow> jsval list" where
  "flat_value (Array a xs) = concat (map flat_value xs)"
| "flat_value v = [v]"

definition flat_Infinity :: "jsval list \<Rightarrow> jsval list" where
  "flat_Infinity xs = concat (map flat_value xs)"

text \<open>Decimal index keys, as \<^verbatim>\<open>Object.keys\<close> gives them for arrays and strings.\<close>

fun string_of_nat :: "nat \<Rightarrow> string" where
  "string_of_nat n =
     (if n < 10 then [char_of (48 + n)]
      else string_of_nat (n div 10) @ [char_of (48 + n mod 10)])"

declare string_of_nat.simps [simp del]

fun indexed :: "nat \<Rightarrow> jsval list \<Rightarrow> (string \<times> jsval) list" where
  "indexed i [] = []"
| "indexed i (x # xs) = (string_of_nat i, x) # indexed (Suc i) xs"

section \<open>Code outside the sources\<close>

text \<open>
  The request classes call \<^verbatim>\<open>ModelUtility\<close> (\<^verbatim>\<open>src/modeling/model-utility.js\<close>), invoke
  caller-supplied callbacks and may be handed Filter instances; none of that code is among
  the sources, so it is a parameter of the model. \<open>invoke\<close> gives the completion of
  calling the function at an address with an argument list (\<open>None\<close>: it returns
  normally); \<open>Filter_entries\<close> gives the own enumerable properties of the Filter
  instance at an address; \<open>fromEntries a v\<close> is \<^verbatim>\<open>Objects.fromEntries(v)\<close>
  (\<^verbatim>\<open>src/utilities/objects.js\<close>), its result allocated at \<open>a\<close>.
\<close>

datatype error =
    InvalidModelType      \<comment> \<open>Invalid "modelType" argument. ...\<close>
  | InvalidConditions     \<comment> \<open>The "conditions" argument must be null, a callback, or a Filter instance.\<close>
  | InvalidName           \<comment> \<open>Invalid "name" argument. The value must be a string or null.\<close>
  | InvalidTemplate       \<comment> \<open>Invalid "template" argument. ...\<close>
  | NonStringKey          \<comment> \<open>An invalid non-string key value was provided in the "dictionary" argument. ...\<close>
  | InvalidDictionary     \<comment> \<open>The "dictionary" argument must be null, a Map, or an object.\<close>
  | StandardMetadata string \<comment> \<open>The metadata property "k" is in use by a standard request method. ...\<close>
  | InvalidPrimaryKeys    \<comment> \<open>Invalid "primaryKeys" argument. The array contains a non-string value.\<close>
  | InvalidObjects        \<comment> \<open>Invalid "objects" argument. Values must be an object.\<close>
  | TypeError             \<comment> \<open>raised by the runtime: property access on null, calling a non-function\<close>
  | CallbackError string  \<comment> \<open>whatever a caller-supplied callback throws\<close>

record env =
  isValidType :: "jsval \<Rightarrow> bool"
  resource :: "jsval \<Rightarrow> string \<Rightarrow> jsval"
  pk :: "jsval \<Rightarrow> jsval list"
  invoke :: "addr \<Rightarrow> jsval list \<Rightarrow> error option"
  Filter_entries :: "addr \<Rightarrow> (string \<times> jsval) list"
  fromEntries :: "addr \<Rightarrow> jsval \<Rightarrow> error + jsval"

text \<open>
  \<^verbatim>\<open>Object.entries(v)\<close> for a value that is neither null nor undefined: the own
  enumerable string-keyed properties. Maps, numbers and booleans have none; functions and
  classes are modelled without any (static accessors, as in the sources' model class, are
  not enumerable).
\<close>

fun Object_entries :: "env \<Rightarrow> jsval \<Rightarrow> (string \<times> jsval) list" where
  "Object_entries E (Object a ps) = ps"
| "Object_entries E (Array a xs) = indexed 0 xs"
| "Object_entries E (String s) = indexed 0 (map (\<lambda>c. String [c]) s)"
| "Object_entries E (FilterV a) = Filter_entries E a"
| "Object_entries E v = []"

section \<open>Request state\<close>

text \<open>
  A request instance is the object at address \<open>self\<close> with one property,
  \<^verbatim>\<open>this.metadata\<close>: an object (its properties in insertion order) or null (\<open>None\<close>; the
  source's \<^verbatim>\<open>clear()\<close> tests for it). \<open>heap_next\<close> is the address the next allocated
  object gets (only objects that stay reachable from the request or from a result are
  counted), \<open>calls\<close> the callbacks invoked so far with their arguments.
\<close>

type_synonym metadata = "(string \<times> jsval) list"

record state =
  self :: addr
  metadata :: "metadata option"
  heap_next :: addr
  calls :: "(addr \<times> jsval list) list"

text \<open>A builder call either returns an object reference or throws; both leave a state.\<close>

datatype outcome = Returned addr state | Threw error state

definition get :: "metadata \<Rightarrow> string \<Rightarrow> jsval" where
  "get m k = (case map_of m k of None \<Rightarrow> Undefined | Some v \<Rightarrow> v)"

text \<open>\<^verbatim>\<open>this.metadata.k = v; return this;\<close>\<close>

definition assign :: "string \<Rightarrow> jsval \<Rightarrow> state \<Rightarrow> outcome" where
  "assign k v s =
     (case metadata s of
        None \<Rightarrow> Threw TypeError s
      | Some m \<Rightarrow> Returned (self s) (s\<lparr>metadata := Some (AList.update k v m)\<rparr>))"

text \<open>A chained call \<^verbatim>\<open>x.f(..).g(..)\<close>: \<open>g\<close> runs on the state \<open>f\<close> left, unless \<open>f\<close> threw.\<close>

definition and_then :: "outcome \<Rightarrow> (state \<Rightarrow> outcome) \<Rightarrow> outcome" where
  "and_then r f = (case r of Threw e s \<Rightarrow> Threw e s | Returned a s \<Rightarrow> f s)"

section \<open>Methods with the same body in several classes\<close>

subsection \<open>count (DeleteRequest, PatchRequest, PutRequest)\<close>

definition Request_count :: "state \<Rightarrow> jsval \<Rightarrow> outcome" where
  "Request_count s enabled =
     (if typeof enabled = TUndefined then assign ''count'' (Boolean True) s
      else assign ''count'' (Boolean (truthy enabled)) s)"

subsection \<open>all (DeleteRequest, PatchRequest)\<close>

text \<open>The argument is the \<^verbatim>\<open>arguments\<close> list: the method tests \<^verbatim>\<open>arguments.length === 0\<close>.\<close>

definition Request_all :: "state \<Rightarrow> jsval list \<Rightarrow> outcome" where
  "Request_all s arguments =
     (let enabled = (case arguments of [] \<Rightarrow> Boolean True | x # rest \<Rightarrow> x)
      in assign ''all'' (Boolean (truthy enabled)) s)"

subsection \<open>where (DeleteRequest, PatchRequest)\<close>

definition Request_where :: "env \<Rightarrow> state \<Rightarrow> jsval \<Rightarrow> outcome" where
  "Request_where E s conditions =
     (if conditions = Null then assign ''where'' Null s
      else if instanceof_Filter conditions then assign ''where'' conditions s
      else case conditions of
        Function f n \<Rightarrow>
          (case metadata s of
             None \<Rightarrow> Threw TypeError s
           | Some m \<Rightarrow>
               let builder = FilterV (heap_next s);
                   s1 = s\<lparr>metadata := Some (AList.update ''where'' builder m),
                          heap_next := Suc (heap_next s),
                          calls := calls s @ [(f, [builder])]\<rparr>
               in (case invoke E f [builder] of
                     None \<Rightarrow> Returned (self s) s1
                   | Some e \<Rightarrow> Threw e s1))
      | other \<Rightarrow> Threw InvalidConditions s)"

subsection \<open>headers (DeleteRequest, PatchRequest, PutRequest)\<close>

text \<open>\<^verbatim>\<open>Map.prototype.set\<close>, \<^verbatim>\<open>delete\<close> and \<^verbatim>\<open>clear\<close> on the value stored in
  \<^verbatim>\<open>metadata.headers\<close>; on a value that is not a Map the call is a TypeError (\<open>None\<close>).\<close>

fun Map_set :: "jsval \<Rightarrow> jsval \<Rightarrow> jsval \<Rightarrow> jsval option" where
  "Map_set (MapV a es) k v = Some (MapV a (AList.update k v es))"
| "Map_set h k v = None"

fun Map_delete :: "jsval \<Rightarrow> jsval \<Rightarrow> jsval option" where
  "Map_delete (MapV a es) k = Some (MapV a (AList.delete k es))"
| "Map_delete h k = None"

fun Map_clear :: "jsval \<Rightarrow> jsval option" where
  "Map_clear (MapV a es) = Some (MapV a [])"
| "Map_clear h = None"

text \<open>The \<^verbatim>\<open>for (let [k, v] of iterable)\<close> loop of \<^verbatim>\<open>headers\<close>, on the stored map \<open>h\<close>.\<close>

fun headers_loop :: "jsval \<Rightarrow> (jsval \<times> jsval) list \<Rightarrow> jsval \<times> error option" where
  "headers_loop h [] = (h, None)"
| "headers_loop h ((k, v) # rest) =
     (if k \<noteq> Null \<and> typeof k \<noteq> TUndefined then
        (if typeof k \<noteq> TString then (h, Some NonStringKey)
         else if v = Null \<or> typeof v = TUndefined then
           (case Map_delete h k of
              None \<Rightarrow> (h, Some TypeError)
            | Some h' \<Rightarrow> headers_loop h' rest)
         else
           (case Map_set h k v of
              None \<Rightarrow> (h, Some TypeError)
            | Some h' \<Rightarrow> headers_loop h' rest))
      else headers_loop h rest)"

text \<open>The iterable: the Map's entries, or \<^verbatim>\<open>Object.entries(dictionary)\<close>.\<close>

fun iterable_of :: "env \<Rightarrow> jsval \<Rightarrow> (jsval \<times> jsval) list" where
  "iterable_of E (MapV a es) = es"
| "iterable_of E d = map (\<lambda>(k, v). (String k, v)) (Object_entries E d)"

definition Request_headers :: "env \<Rightarrow> state \<Rightarrow> jsval \<Rightarrow> outcome" where
  "Request_headers E s dictionary =
     (case metadata s of
        None \<Rightarrow> Threw TypeError s
      | Some m0 \<Rightarrow>
          let fresh = \<not> truthy (get m0 ''headers'');
              m = (if fresh then AList.update ''headers'' (MapV (heap_next s) []) m0 else m0);
              s1 = s\<lparr>metadata := Some m,
                     heap_next := (if fresh then Suc (heap_next s) else heap_next s)\<rparr>;
              h = get m ''headers''
          in if dictionary = Null then
               (case Map_clear h of
                  None \<Rightarrow> Threw TypeError s1
                | Some h' \<Rightarrow>
                    Returned (self s) (s1\<lparr>metadata := Some (AList.update ''headers'' h' m)\<rparr>))
             else if instanceof_Map dictionary \<or> typeof dictionary = TObject then
               (case headers_loop h (iterable_of E dictionary) of
                  (h', None) \<Rightarrow>
                    Returned (self s) (s1\<lparr>metadata := Some (AList.update ''headers'' h' m)\<rparr>)
                | (h', Some e) \<Rightarrow>
                    Threw e (s1\<lparr>metadata := Some (AList.update ''headers'' h' m)\<rparr>))
             else Threw InvalidDictionary s1)"

subsection \<open>meta (the three classes, each with its own STANDARD_METADATA)\<close>

definition DeleteRequest_STANDARD_METADATA :: "jsval list" where
  "DeleteRequest_STANDARD_METADATA = [String ''all'', String ''where'', String ''from'']"

definition PatchRequest_STANDARD_METADATA :: "jsval list" where
  "PatchRequest_STANDARD_METADATA = [String ''template'', String ''where'', String ''to'']"

definition PutRequest_STANDARD_METADATA :: "jsval list" where
  "PutRequest_STANDARD_METADATA =
     [String ''pk'', String ''objects'', String ''to'', String ''count'', String ''model'']"

text \<open>The first loop of the non-null branch: the first key that is a standard one.\<close>

fun meta_check :: "jsval list \<Rightarrow> string list \<Rightarrow> string option" where
  "meta_check STANDARD [] = None"
| "meta_check STANDARD (k # ks) =
     (if indexOf STANDARD (String k) \<ge> 0 then Some k else meta_check STANDARD ks)"

text \<open>\<^verbatim>\<open>Object.assign(target, source)\<close> on the properties of the target.\<close>

definition Object_assign :: "metadata \<Rightarrow> (string \<times> jsval) list \<Rightarrow> metadata" where
  "Object_assign target source = fold (\<lambda>(k, v) m. AList.update k v m) source target"

definition Request_meta :: "jsval list \<Rightarrow> env \<Rightarrow> state \<Rightarrow> jsval \<Rightarrow> outcome" where
  "Request_meta STANDARD E s md =
     (if md = Null then
        (case metadata s of
           None \<Rightarrow> Threw TypeError s
         | Some m \<Rightarrow>
             Returned (self s)
               (s\<lparr>metadata := Some (filter (\<lambda>(k, v). \<not> indexOf STANDARD (String k) < 0) m)\<rparr>))
      else if md = Undefined then Threw TypeError s
      else
        (case meta_check STANDARD (map fst (Object_entries E md)) of
           Some k \<Rightarrow> Threw (StandardMetadata k) s
         | None \<Rightarrow>
             (case metadata s of
                None \<Rightarrow> Threw TypeError s
              | Some m \<Rightarrow>
                  Returned (self s)
                    (s\<lparr>metadata := Some (Object_assign m (Object_entries E md))\<rparr>))))"

definition DeleteRequest_meta :: "env \<Rightarrow> state \<Rightarrow> jsval \<Rightarrow> outcome" where
  "DeleteRequest_meta = Request_meta DeleteRequest_STANDARD_METADATA"

definition PatchRequest_meta :: "env \<Rightarrow> state \<Rightarrow> jsval \<Rightarrow> outcome" where
  "PatchRequest_meta = Request_meta PatchRequest_STANDARD_METADATA"

definition PutRequest_meta :: "env \<Rightarrow> state \<Rightarrow> jsval \<Rightarrow> outcome" where
  "PutRequest_meta = Request_meta PutRequest_STANDARD_METADATA"

subsection \<open>toJSON\<close>

text \<open>\<^verbatim>\<open>v?.name\<close>\<close>

fun name_of :: "env \<Rightarrow> jsval \<Rightarrow> jsval" where
  "name_of E (Function a n) = String n"
| "name_of E (Object a ps) = get ps ''name''"
| "name_of E (FilterV a) = get (Filter_entries E a) ''name''"
| "name_of E v = Undefined"

text \<open>
  The body of \<^verbatim>\<open>toJSON\<close>. DeleteRequest and PutRequest end with
  \<^verbatim>\<open>metaClone.method = this.method\<close> (\<open>Some\<close> of the method name); PatchRequest does not
  (\<open>None\<close>). The result is the clone, a new plain object.
\<close>

definition Request_toJSON :: "string option \<Rightarrow> env \<Rightarrow> state \<Rightarrow> (error + jsval) \<times> state" where
  "Request_toJSON method E s =
     (let clone_at = heap_next s; s1 = s\<lparr>heap_next := Suc (heap_next s)\<rparr> in
      case metadata s of
        None \<Rightarrow> (Inl TypeError, s1)
      | Some m \<Rightarrow>
          let withModel = (\<lambda>c. AList.update ''model'' (name_of E (get m ''model'')) c);
              withMethod = (\<lambda>c. case method of None \<Rightarrow> c
                                 | Some name \<Rightarrow> AList.update ''method'' (String name) c)
          in if truthy (get m ''headers'') then
               (case fromEntries E (heap_next s1) (get m ''headers'') of
                  Inl e \<Rightarrow> (Inl e, s1)
                | Inr flat \<Rightarrow>
                    (Inr (Object clone_at (withMethod (withModel (AList.update ''headers'' flat m)))),
                     s1\<lparr>heap_next := Suc (heap_next s1)\<rparr>))
             else (Inr (Object clone_at (withMethod (withModel m))), s1))"

definition DeleteRequest_toJSON :: "env \<Rightarrow> state \<Rightarrow> (error + jsval) \<times> state" where
  "DeleteRequest_toJSON = Request_toJSON (Some ''delete'')"

definition PatchRequest_toJSON :: "env \<Rightarrow> state \<Rightarrow> (error + jsval) \<times> state" where
  "PatchRequest_toJSON = Request_toJSON None"

definition PutRequest_toJSON :: "env \<Rightarrow> state \<Rightarrow> (error + jsval) \<times> state" where
  "PutRequest_toJSON = Request_toJSON (Some ''put'')"

section \<open>DeleteRequest\<close>

text \<open>The constructor; \<open>a\<close> is the address of the new instance.\<close>

definition DeleteRequest_new :: "addr \<Rightarrow> state" where
  "DeleteRequest_new a =
     \<lparr>self = a,
      metadata = Some [(''all'', Boolean False), (''where'', Null), (''from'', Null),
                       (''count'', Boolean False), (''model'', Null), (''headers'', Null)],
      heap_next = Suc a, calls = []\<rparr>"

definition DeleteRequest_from :: "state \<Rightarrow> jsval \<Rightarrow> outcome" where
  "DeleteRequest_from s name =
     (if name \<noteq> Null \<and> typeof name \<noteq> TString then Threw InvalidName s
      else assign ''from'' name s)"

definition DeleteRequest_model :: "env \<Rightarrow> state \<Rightarrow> jsval \<Rightarrow> outcome" where
  "DeleteRequest_model E s modelType =
     (if modelType \<noteq> Null \<and> isValidType E modelType = False then Threw InvalidModelType s
      else case metadata s of
        None \<Rightarrow> Threw TypeError s
      | Some m \<Rightarrow>
          let s1 = s\<lparr>metadata := Some (AList.update ''model'' modelType m)\<rparr>
          in if modelType \<noteq> Null then
               and_then (DeleteRequest_from s1 (resource E modelType ''delete''))
                 (\<lambda>s2. Returned (self s2) s2)
             else Returned (self s1) s1)"

definition DeleteRequest_clear :: "state \<Rightarrow> outcome" where
  "DeleteRequest_clear s =
     (let m0 = (case metadata s of None \<Rightarrow> [] | Some m \<Rightarrow> m);
          m1 = AList.update ''all'' (Boolean False) m0;
          m2 = AList.update ''where'' Null m1;
          m3 = AList.update ''from'' Null m2;
          m4 = AList.update ''headers'' Null m3
      in Returned (self s) (s\<lparr>metadata := Some m4\<rparr>))"

section \<open>PatchRequest\<close>

definition PatchRequest_template :: "state \<Rightarrow> jsval \<Rightarrow> outcome" where
  "PatchRequest_template s template =
     (if typeof template \<noteq> TObject \<or> isArray template then Threw InvalidTemplate s
      else if \<not> truthy template then assign ''template'' Null s
      else assign ''template'' template s)"

text \<open>The constructor: the initial metadata, then \<^verbatim>\<open>if (template) this.template(template)\<close>.\<close>

definition PatchRequest_init :: "addr \<Rightarrow> state" where
  "PatchRequest_init a =
     \<lparr>self = a,
      metadata = Some [(''all'', Boolean False), (''template'', Null), (''where'', Null),
                       (''to'', Null), (''count'', Boolean False), (''model'', Null),
                       (''headers'', Null)],
      heap_next = Suc a, calls = []\<rparr>"

definition PatchRequest_new :: "addr \<Rightarrow> jsval \<Rightarrow> outcome" where
  "PatchRequest_new a template =
     (if truthy template
      then and_then (PatchRequest_template (PatchRequest_init a) template) (\<lambda>s1. Returned a s1)
      else Returned a (PatchRequest_init a))"

definition PatchRequest_to :: "state \<Rightarrow> jsval \<Rightarrow> outcome" where
  "PatchRequest_to s name =
     (if name = Null then assign ''to'' Null s
      else if typeof name \<noteq> TString then Threw InvalidName s
      else assign ''to'' name s)"

definition PatchRequest_model :: "env \<Rightarrow> state \<Rightarrow> jsval \<Rightarrow> outcome" where
  "PatchRequest_model E s modelType =
     (if modelType \<noteq> Null \<and> isValidType E modelType = False then Threw InvalidModelType s
      else case metadata s of
        None \<Rightarrow> Threw TypeError s
      | Some m \<Rightarrow>
          let s1 = s\<lparr>metadata := Some (AList.update ''model'' modelType m)\<rparr>
          in if truthy modelType then
               and_then (PatchRequest_to s1 (resource E modelType ''patch''))
                 (\<lambda>s2. Returned (self s2) s2)
             else Returned (self s1) s1)"

definition PatchRequest_clear :: "state \<Rightarrow> outcome" where
  "PatchRequest_clear s =
     (let m0 = (case metadata s of None \<Rightarrow> [] | Some m \<Rightarrow> m);
          m1 = AList.update ''template'' Null m0;
          m2 = AList.update ''where'' Null m1;
          m3 = AList.update ''to'' Null m2;
          m4 = AList.update ''headers'' Null m3
      in Returned (self s) (s\<lparr>metadata := Some m4\<rparr>))"

section \<open>PutRequest\<close>

text \<open>The loop of \<^verbatim>\<open>pk\<close> over the flattened arguments, on the elements of
  \<^verbatim>\<open>metadata.pk\<close>. (In \<^verbatim>\<open>pk\<close> and \<^verbatim>\<open>objects\<close> the rest parameter is an array, so the
  tests \<^verbatim>\<open>!primaryKeys\<close> and \<^verbatim>\<open>!objects\<close> are false and only the single-null test remains.)\<close>

fun pk_loop :: "jsval list \<Rightarrow> jsval list \<Rightarrow> jsval list \<times> error option" where
  "pk_loop cur [] = (cur, None)"
| "pk_loop cur (k # ks) =
     (if k \<noteq> Null \<and> typeof k \<noteq> TString then (cur, Some InvalidPrimaryKeys)
      else if truthy k \<and> indexOf cur k < 0 then pk_loop (cur @ [k]) ks
      else pk_loop cur ks)"

text \<open>
  A method that works on an array property \<open>key\<close> of the metadata, after the guard
  \<^verbatim>\<open>if (Array.isArray(this.metadata[key]) === false) this.metadata[key] = []\<close>: the
  array's address and elements, and the state the guard leaves.
\<close>

definition ensure_array :: "string \<Rightarrow> state \<Rightarrow> metadata \<Rightarrow> (addr \<times> jsval list) \<times> metadata \<times> addr" where
  "ensure_array key s m =
     (case get m key of
        Array a xs \<Rightarrow> ((a, xs), m, heap_next s)
      | other \<Rightarrow> ((heap_next s, []), AList.update key (Array (heap_next s) []) m, Suc (heap_next s)))"

definition PutRequest_pk :: "state \<Rightarrow> jsval list \<Rightarrow> outcome" where
  "PutRequest_pk s primaryKeys =
     (case metadata s of
        None \<Rightarrow> Threw TypeError s
      | Some m0 \<Rightarrow>
          (case ensure_array ''pk'' s m0 of
             ((a, cur), m, n) \<Rightarrow>
               if length primaryKeys = 1 \<and> primaryKeys ! 0 = Null then
                 Returned (self s)
                   (s\<lparr>metadata := Some (AList.update ''pk'' (Array n []) m), heap_next := Suc n\<rparr>)
               else
                 (case pk_loop cur (flat1 primaryKeys) of
                    (cur', None) \<Rightarrow>
                      Returned (self s)
                        (s\<lparr>metadata := Some (AList.update ''pk'' (Array a cur') m), heap_next := n\<rparr>)
                  | (cur', Some e) \<Rightarrow>
                      Threw e
                        (s\<lparr>metadata := Some (AList.update ''pk'' (Array a cur') m), heap_next := n\<rparr>))))"

text \<open>The loop of \<^verbatim>\<open>objects\<close>, on the elements of \<^verbatim>\<open>metadata.objects\<close>.\<close>

fun objects_loop :: "jsval list \<Rightarrow> jsval list \<Rightarrow> jsval list \<times> error option" where
  "objects_loop cur [] = (cur, None)"
| "objects_loop cur (ob # obs) =
     (if ob \<noteq> Null \<and> typeof ob \<noteq> TUndefined then
        (if typeof ob \<noteq> TObject then (cur, Some InvalidObjects)
         else if indexOf cur ob < 0 then objects_loop (cur @ [ob]) obs
         else objects_loop cur obs)
      else objects_loop cur obs)"

definition PutRequest_objects :: "state \<Rightarrow> jsval list \<Rightarrow> outcome" where
  "PutRequest_objects s objects =
     (case metadata s of
        None \<Rightarrow> Threw TypeError s
      | Some m0 \<Rightarrow>
          (case ensure_array ''objects'' s m0 of
             ((a, cur), m, n) \<Rightarrow>
               if length objects = 1 \<and> objects ! 0 = Null then
                 Returned (self s)
                   (s\<lparr>metadata := Some (AList.update ''objects'' (Array a []) m), heap_next := n\<rparr>)
               else
                 (case objects_loop cur (flat_Infinity objects) of
                    (cur', None) \<Rightarrow>
                      Returned (self s)
                        (s\<lparr>metadata := Some (AList.update ''objects'' (Array a cur') m),
                           heap_next := n\<rparr>)
                  | (cur', Some e) \<Rightarrow>
                      Threw e
                        (s\<lparr>metadata := Some (AList.update ''objects'' (Array a cur') m),
                           heap_next := n\<rparr>))))"

definition PutRequest_to :: "state \<Rightarrow> jsval \<Rightarrow> outcome" where
  "PutRequest_to s name =
     (if name \<noteq> Null \<and> typeof name \<noteq> TString then Threw InvalidName s
      else assign ''to'' name s)"

definition PutRequest_model :: "env \<Rightarrow> state \<Rightarrow> jsval \<Rightarrow> outcome" where
  "PutRequest_model E s modelType =
     (if modelType \<noteq> Null \<and> isValidType E modelType = False then Threw InvalidModelType s
      else case metadata s of
        None \<Rightarrow> Threw TypeError s
      | Some m \<Rightarrow>
          let s1 = s\<lparr>metadata := Some (AList.update ''model'' modelType m)\<rparr>
          in if truthy modelType then
               and_then
                 (and_then
                    (and_then (PutRequest_to s1 (resource E modelType ''put''))
                       (\<lambda>s2. PutRequest_pk s2 [Null]))
                    (\<lambda>s3. PutRequest_pk s3 (pk E modelType)))
                 (\<lambda>s4. Returned (self s4) s4)
             else Returned (self s1) s1)"

definition PutRequest_clear :: "state \<Rightarrow> outcome" where
  "PutRequest_clear s =
     (let m0 = (case metadata s of None \<Rightarrow> [] | Some m \<Rightarrow> m);
          m1 = AList.update ''pk'' (Array (heap_next s) []) m0;
          m2 = AList.update ''objects'' (Array (Suc (heap_next s)) []) m1;
          m3 = AList.update ''to'' Null m2;
          m4 = AList.update ''headers'' Null m3
      in Returned (self s) (s\<lparr>metadata := Some m4, heap_next := Suc (Suc (heap_next s))\<rparr>))"

text \<open>
  The constructor \<^verbatim>\<open>new PutRequest(pk, ...objects)\<close>: the initial metadata, then
  \<^verbatim>\<open>if (Array.isArray(pk)) this.pk(...pk); this.objects(...objects)\<close>.
\<close>

definition PutRequest_init :: "addr \<Rightarrow> state" where
  "PutRequest_init a =
     \<lparr>self = a,
      metadata = Some [(''pk'', Array (Suc a) []), (''objects'', Array (Suc (Suc a)) []),
                       (''to'', Null), (''count'', Boolean False), (''model'', Null),
                       (''headers'', Null)],
      heap_next = Suc (Suc (Suc a)), calls = []\<rparr>"

definition PutRequest_new :: "addr \<Rightarrow> jsval \<Rightarrow> jsval list \<Rightarrow> outcome" where
  "PutRequest_new a pkArg objects =
     and_then
       (case pkArg of
          Array b ks \<Rightarrow> PutRequest_pk (PutRequest_init a) ks
        | other \<Rightarrow> Returned a (PutRequest_init a))
       (\<lambda>s1. and_then (PutRequest_objects s1 objects) (\<lambda>s2. Returned a s2))"

section \<open>Observations and a concrete environment\<close>


text \<open>
  What a caller reads from \<^verbatim>\<open>request.metadata.headers\<close>: whether it is a Map, and what
  \<^verbatim>\<open>headers.get(k)\<close> gives (\<open>None\<close>: no entry).
\<close>

definition header_map :: "state \<Rightarrow> jsval \<Rightarrow> jsval option" where
  "header_map s =
     (case metadata s of
        None \<Rightarrow> Map.empty
      | Some m \<Rightarrow> (case get m ''headers'' of MapV a es \<Rightarrow> map_of es | other \<Rightarrow> Map.empty))"


text \<open>
  Modelled from the spec: \<^verbatim>\<open>Objects.fromEntries\<close> (\<^verbatim>\<open>src/utilities/objects.js\<close> is not
  among the sources). The spec (section 6, request wire format) says the headers are
  "flattened to a plain key-value mapping": a Map becomes a plain object with the same
  string keys and values. On a value that cannot be iterated it is taken to throw.
\<close>

fun plain_entries :: "(jsval \<times> jsval) list \<Rightarrow> (string \<times> jsval) list" where
  "plain_entries [] = []"
| "plain_entries ((String k, v) # es) = (k, v) # plain_entries es"
| "plain_entries (e # es) = plain_entries es"

fun Objects_fromEntries :: "addr \<Rightarrow> jsval \<Rightarrow> error + jsval" where
  "Objects_fromEntries a (MapV b es) = Inr (Object a (plain_entries es))"
| "Objects_fromEntries a v = Inl TypeError"

text \<open>
  Modelled from the spec: \<^verbatim>\<open>ModelUtility\<close> (\<^verbatim>\<open>src/modeling/model-utility.js\<close> is not among
  the sources), restricted to the one model class the sources hold, \<^verbatim>\<open>BaseThemeModel\<close>
  (\<^verbatim>\<open>src/requests/patch-request.js\<close>, lines 855 to 926). Its resource configuration
  has \<^verbatim>\<open>resource: 'themes'\<close>, the first of the spec's precedence chain (section 3), and
  its only property with \<^verbatim>\<open>pk: true\<close> is \<^verbatim>\<open>ID\<close> (section 4.2, extractPrimaryKeys). A valid
  model type is a class. What the utility returns for any other class is not modelled
  (undefined, no key). Callbacks return normally and Filter instances have no own
  enumerable property in this environment.
\<close>

definition BaseThemeModel :: jsval where
  "BaseThemeModel = Function 100 ''BaseThemeModel''"

definition ModelUtility :: env where
  "ModelUtility =
     \<lparr>isValidType = (\<lambda>v. typeof v = TFunction),
      resource = (\<lambda>v method. if v = BaseThemeModel then String ''themes'' else Undefined),
      pk = (\<lambda>v. if v = BaseThemeModel then [String ''ID''] else []),
      invoke = (\<lambda>f args. None),
      Filter_entries = (\<lambda>a. []),
      fromEntries = Objects_fromEntries\<rparr>"

text \<open>
  What a caller reads from \<^verbatim>\<open>request.metadata.objects\<close> of a PutRequest, and how many
  elements of an array are the given reference (\<^verbatim>\<open>===\<close>).
\<close>

definition stored_objects :: "state \<Rightarrow> jsval list" where
  "stored_objects s =
     (case metadata s of
        None \<Rightarrow> []
      | Some m \<Rightarrow> (case get m ''objects'' of Array a xs \<Rightarrow> xs | other \<Rightarrow> []))"

definition occurrences :: "jsval list \<Rightarrow> jsval \<Rightarrow> nat" where
  "occurrences xs v = length (filter (\<lambda>x. strict_eq x v) xs)"

section \<open>The builder methods of each class\<close>

text \<open>
  The method tables of the three classes, as their class bodies declare them: a call of a
  builder method by name on an instance of a class runs that class's method (\<open>None\<close>:
  the class has no such method). \<^verbatim>\<open>all\<close>, \<^verbatim>\<open>pk\<close> and \<^verbatim>\<open>objects\<close> take the argument list.
\<close>

datatype request_class = DeleteRequest | PatchRequest | PutRequest

datatype builder_call =
    Model jsval | Count jsval | All "jsval list" | Where jsval | From jsval | To jsval
  | Template jsval | Pk "jsval list" | Objects "jsval list" | Clear | Headers jsval | Meta jsval

fun call :: "env \<Rightarrow> request_class \<Rightarrow> state \<Rightarrow> builder_call \<Rightarrow> outcome option" where
  "call E DeleteRequest s (Model v) = Some (DeleteRequest_model E s v)"
| "call E DeleteRequest s (Count v) = Some (Request_count s v)"
| "call E DeleteRequest s (All args) = Some (Request_all s args)"
| "call E DeleteRequest s (Where v) = Some (Request_where E s v)"
| "call E DeleteRequest s (From v) = Some (DeleteRequest_from s v)"
| "call E DeleteRequest s Clear = Some (DeleteRequest_clear s)"
| "call E DeleteRequest s (Headers v) = Some (Request_headers E s v)"
| "call E DeleteRequest s (Meta v) = Some (DeleteRequest_meta E s v)"
| "call E PatchRequest s (Model v) = Some (PatchRequest_model E s v)"
| "call E PatchRequest s (Count v) = Some (Request_count s v)"
| "call E PatchRequest s (All args) = Some (Request_all s args)"
| "call E PatchRequest s (Template v) = Some (PatchRequest_template s v)"
| "call E PatchRequest s (Where v) = Some (Request_where E s v)"
| "call E PatchRequest s (To v) = Some (PatchRequest_to s v)"
| "call E PatchRequest s Clear = Some (PatchRequest_clear s)"
| "call E PatchRequest s (Headers v) = Some (Request_headers E s v)"
| "call E PatchRequest s (Meta v) = Some (PatchRequest_meta E s v)"
| "call E PutRequest s (Model v) = Some (PutRequest_model E s v)"
| "call E PutRequest s (Count v) = Some (Request_count s v)"
| "call E PutRequest s (Pk args) = Some (PutRequest_pk s args)"
| "call E PutRequest s (Objects args) = Some (PutRequest_objects s args)"
| "call E PutRequest s (To v) = Some (PutRequest_to s v)"
| "call E PutRequest s Clear = Some (PutRequest_clear s)"
| "call E PutRequest s (Headers v) = Some (Request_headers E s v)"
| "call E PutRequest s (Meta v) = Some (PutRequest_meta E s v)"
| "call E c s b = None"

section \<open>Basic facts\<close>

lemma typeof_Undefined_iff: "typeof v = TUndefined \<longleftrightarrow> v = Undefined"
  by (cases v) simp_all

lemma typeof_String_iff: "typeof k = TString \<longleftrightarrow> (\<exists>n. k = String n)"
  by (cases k) simp_all

section \<open>headers\<close>


lemma map_of_rev_Cons:
  "map_of (rev es @ [(k0, v0)]) k =
     (case map_of (rev es) k of Some v \<Rightarrow> Some v | None \<Rightarrow> if k = k0 then Some v0 else None)"
  by (simp add: map_add_def split: option.splits)

lemma get_update_same: "get (AList.update k v m) k = v"
  by (simp add: get_def update_conv')

lemma get_update_other: "k' \<noteq> k \<Longrightarrow> get (AList.update k v m) k' = get m k'"
  by (simp add: get_def update_conv')














section \<open>where\<close>

text \<open>
  Claim C6. \<^verbatim>\<open>where\<close> has the same body in DeleteRequest and PatchRequest. On a request
  that has its metadata object: null clears the stored filter; a Filter instance is stored
  as it is, the same address; a function is called at once, exactly once, with a Filter
  allocated by this call (at the allocator's next address), and that Filter is what the
  request stores, whether the callback returns or throws; any other value throws the
  conditions-argument error and leaves the state, and so the stored filter, as it was.
\<close>

theorem where_contract:
  assumes "metadata s = Some m"
  shows
   "Request_where E s Null =
      Returned (self s) (s\<lparr>metadata := Some (AList.update ''where'' Null m)\<rparr>)
    \<and> Request_where E s (FilterV a) =
      Returned (self s) (s\<lparr>metadata := Some (AList.update ''where'' (FilterV a) m)\<rparr>)
    \<and> Request_where E s (Function f n) =
      (let builder = FilterV (heap_next s);
           s' = s\<lparr>metadata := Some (AList.update ''where'' builder m),
                  heap_next := Suc (heap_next s),
                  calls := calls s @ [(f, [builder])]\<rparr>
       in case invoke E f [builder] of
            None \<Rightarrow> Returned (self s) s'
          | Some e \<Rightarrow> Threw e s')
    \<and> (c \<noteq> Null \<and> \<not> instanceof_Filter c \<and> typeof c \<noteq> TFunction \<longrightarrow>
          Request_where E s c = Threw InvalidConditions s)"
proof (intro conjI impI)
  show "Request_where E s Null =
      Returned (self s) (s\<lparr>metadata := Some (AList.update ''where'' Null m)\<rparr>)"
    using assms by (simp add: Request_where_def assign_def)
  show "Request_where E s (FilterV a) =
      Returned (self s) (s\<lparr>metadata := Some (AList.update ''where'' (FilterV a) m)\<rparr>)"
    using assms by (simp add: Request_where_def assign_def)
  show "Request_where E s (Function f n) =
      (let builder = FilterV (heap_next s);
           s' = s\<lparr>metadata := Some (AList.update ''where'' builder m),
                  heap_next := Suc (heap_next s),
                  calls := calls s @ [(f, [builder])]\<rparr>
       in case invoke E f [builder] of
            None \<Rightarrow> Returned (self s) s'
          | Some e \<Rightarrow> Threw e s')"
    using assms by (simp add: Request_where_def Let_def)
next
  assume "c \<noteq> Null \<and> \<not> instanceof_Filter c \<and> typeof c \<noteq> TFunction"
  then show "Request_where E s c = Threw InvalidConditions s"
    by (cases c) (simp_all add: Request_where_def)
qed

text \<open>C6 on a new DeleteRequest: null, a Filter, a callback, a number.\<close>

theorem where_contract_witness:
  "Request_where ModelUtility (DeleteRequest_new 10) Null =
     Returned 10 (DeleteRequest_new 10)
   \<and> Request_where ModelUtility (DeleteRequest_new 10) (FilterV 5) =
     Returned 10
       \<lparr>self = 10,
        metadata = Some [(''all'', Boolean False), (''where'', FilterV 5), (''from'', Null),
                         (''count'', Boolean False), (''model'', Null), (''headers'', Null)],
        heap_next = 11, calls = []\<rparr>
   \<and> Request_where ModelUtility (DeleteRequest_new 10) (Function 20 ''cb'') =
     Returned 10
       \<lparr>self = 10,
        metadata = Some [(''all'', Boolean False), (''where'', FilterV 11), (''from'', Null),
                         (''count'', Boolean False), (''model'', Null), (''headers'', Null)],
        heap_next = 12, calls = [(20, [FilterV 11])]\<rparr>
   \<and> Request_where ModelUtility (DeleteRequest_new 10) (Number 1312312) =
     Threw InvalidConditions (DeleteRequest_new 10)"
proof -
  have m: "metadata (DeleteRequest_new 10) =
      Some [(''all'', Boolean False), (''where'', Null), (''from'', Null),
            (''count'', Boolean False), (''model'', Null), (''headers'', Null)]"
    by (simp add: DeleteRequest_new_def)
  from where_contract [OF m, of ModelUtility 5 20 "''cb''" "Number 1312312"]
  show ?thesis
    by (simp add: DeleteRequest_new_def ModelUtility_def Let_def)
qed

section \<open>meta\<close>

lemma indexOf_from_found:
  "(0 \<le> indexOf_from i xs v) = (0 \<le> i \<and> (\<exists>x \<in> set xs. strict_eq x v))" if "0 \<le> i"
  using that by (induction xs arbitrary: i) auto

lemma indexOf_found: "(0 \<le> indexOf xs v) = (\<exists>x \<in> set xs. strict_eq x v)"
  by (simp add: indexOf_def indexOf_from_found)

lemma indexOf_missing: "(indexOf xs v < 0) = (\<forall>x \<in> set xs. \<not> strict_eq x v)"
  using indexOf_found [of xs v] by auto

lemma strict_eq_String: "strict_eq x (String k) = (x = String k)"
  by (cases x) (auto simp: strict_eq_def)

lemma standard_key: "(0 \<le> indexOf (map String ks) (String k)) = (k \<in> set ks)"
  by (auto simp: indexOf_found strict_eq_String)

lemma meta_null:
  assumes "metadata s = Some m"
  shows "Request_meta (map String ks) E s Null =
           Returned (self s) (s\<lparr>metadata := Some (filter (\<lambda>(k, v). k \<in> set ks) m)\<rparr>)"
proof -
  have "filter (\<lambda>(k, v). \<not> indexOf (map String ks) (String k) < 0) m = filter (\<lambda>(k, v). k \<in> set ks) m"
    using standard_key [of ks] by (intro filter_cong) (auto simp: not_less)
  then show ?thesis using assms
    by (simp add: Request_meta_def)
qed

lemma meta_check_find: "meta_check (map String ks) keys = find (\<lambda>k. k \<in> set ks) keys"
  by (induction keys) (simp_all add: standard_key)

lemma meta_object:
  assumes "metadata s = Some m"
  shows "Request_meta (map String ks) E s (Object a ps) =
           (case find (\<lambda>k. k \<in> set ks) (map fst ps) of
              Some k \<Rightarrow> Threw (StandardMetadata k) s
            | None \<Rightarrow> Returned (self s) (s\<lparr>metadata := Some (Object_assign m ps)\<rparr>))"
  using assms by (simp add: Request_meta_def meta_check_find split: option.splits)

lemma Delete_standard: "DeleteRequest_STANDARD_METADATA = map String [''all'', ''where'', ''from'']"
  by (simp add: DeleteRequest_STANDARD_METADATA_def)

lemma Patch_standard: "PatchRequest_STANDARD_METADATA = map String [''template'', ''where'', ''to'']"
  by (simp add: PatchRequest_STANDARD_METADATA_def)

text \<open>
  Claim C9. On a request that has its metadata object, \<^verbatim>\<open>meta(null)\<close> keeps exactly
  the entries named in the class's STANDARD_METADATA (all, where, from on DeleteRequest;
  template, where, to on PatchRequest) and deletes every other one, so count, model and
  headers go, and all on PatchRequest; \<^verbatim>\<open>meta(object)\<close> throws only for a key of that
  list (the first one) and otherwise assigns every entry; so \<^verbatim>\<open>meta({count: v})\<close> and
  \<^verbatim>\<open>meta({model: v})\<close> return the request with the field overwritten by \<open>v\<close>.
\<close>

theorem meta_guards_standard_only:
  assumes "metadata s = Some m"
  shows
   "DeleteRequest_meta E s Null =
      Returned (self s)
        (s\<lparr>metadata := Some (filter (\<lambda>(k, v). k \<in> {''all'', ''where'', ''from''}) m)\<rparr>)
    \<and> PatchRequest_meta E s Null =
      Returned (self s)
        (s\<lparr>metadata := Some (filter (\<lambda>(k, v). k \<in> {''template'', ''where'', ''to''}) m)\<rparr>)
    \<and> DeleteRequest_meta E s (Object a ps) =
      (case find (\<lambda>k. k \<in> {''all'', ''where'', ''from''}) (map fst ps) of
         Some k \<Rightarrow> Threw (StandardMetadata k) s
       | None \<Rightarrow> Returned (self s) (s\<lparr>metadata := Some (Object_assign m ps)\<rparr>))
    \<and> PatchRequest_meta E s (Object a ps) =
      (case find (\<lambda>k. k \<in> {''template'', ''where'', ''to''}) (map fst ps) of
         Some k \<Rightarrow> Threw (StandardMetadata k) s
       | None \<Rightarrow> Returned (self s) (s\<lparr>metadata := Some (Object_assign m ps)\<rparr>))
    \<and> (k = ''count'' \<or> k = ''model'' \<longrightarrow>
         DeleteRequest_meta E s (Object a [(k, v)]) =
           Returned (self s) (s\<lparr>metadata := Some (AList.update k v m)\<rparr>) \<and>
         PatchRequest_meta E s (Object a [(k, v)]) =
           Returned (self s) (s\<lparr>metadata := Some (AList.update k v m)\<rparr>))"
proof -
  have d: "DeleteRequest_meta = Request_meta (map String [''all'', ''where'', ''from''])"
    by (simp add: DeleteRequest_meta_def Delete_standard)
  have p: "PatchRequest_meta = Request_meta (map String [''template'', ''where'', ''to''])"
    by (simp add: PatchRequest_meta_def Patch_standard)
  show ?thesis
    unfolding d p meta_null [OF assms] meta_object [OF assms]
    by (auto simp: Object_assign_def)
qed

text \<open>C9 on a new DeleteRequest and a new PatchRequest.\<close>

theorem meta_guards_standard_only_witness:
  "DeleteRequest_meta ModelUtility (DeleteRequest_new 10) Null =
     Returned 10
       \<lparr>self = 10,
        metadata = Some [(''all'', Boolean False), (''where'', Null), (''from'', Null)],
        heap_next = 11, calls = []\<rparr>
   \<and> PatchRequest_meta ModelUtility (PatchRequest_init 10) Null =
     Returned 10
       \<lparr>self = 10,
        metadata = Some [(''template'', Null), (''where'', Null), (''to'', Null)],
        heap_next = 11, calls = []\<rparr>
   \<and> DeleteRequest_meta ModelUtility (DeleteRequest_new 10) (Object 7 [(''count'', String ''yes'')]) =
     Returned 10
       \<lparr>self = 10,
        metadata = Some [(''all'', Boolean False), (''where'', Null), (''from'', Null),
                         (''count'', String ''yes''), (''model'', Null), (''headers'', Null)],
        heap_next = 11, calls = []\<rparr>
   \<and> PatchRequest_meta ModelUtility (PatchRequest_init 10) (Object 7 [(''model'', Number 5)]) =
     Returned 10
       \<lparr>self = 10,
        metadata = Some [(''all'', Boolean False), (''template'', Null), (''where'', Null),
                         (''to'', Null), (''count'', Boolean False), (''model'', Number 5),
                         (''headers'', Null)],
        heap_next = 11, calls = []\<rparr>
   \<and> PatchRequest_meta ModelUtility (PatchRequest_init 10)
        (Object 7 [(''x'', Number 5), (''to'', Number 5)]) =
     Threw (StandardMetadata ''to'') (PatchRequest_init 10)"
proof -
  have d: "metadata (DeleteRequest_new 10) =
      Some [(''all'', Boolean False), (''where'', Null), (''from'', Null),
            (''count'', Boolean False), (''model'', Null), (''headers'', Null)]"
    by (simp add: DeleteRequest_new_def)
  have p: "metadata (PatchRequest_init 10) =
      Some [(''all'', Boolean False), (''template'', Null), (''where'', Null),
            (''to'', Null), (''count'', Boolean False), (''model'', Null), (''headers'', Null)]"
    by (simp add: PatchRequest_init_def)
  from meta_guards_standard_only [OF d, of ModelUtility 7 "[]" "''count''" "String ''yes''"]
  have 1: "DeleteRequest_meta ModelUtility (DeleteRequest_new 10) Null =
     Returned 10
       \<lparr>self = 10,
        metadata = Some [(''all'', Boolean False), (''where'', Null), (''from'', Null)],
        heap_next = 11, calls = []\<rparr>"
    and 3: "DeleteRequest_meta ModelUtility (DeleteRequest_new 10) (Object 7 [(''count'', String ''yes'')]) =
     Returned 10
       \<lparr>self = 10,
        metadata = Some [(''all'', Boolean False), (''where'', Null), (''from'', Null),
                         (''count'', String ''yes''), (''model'', Null), (''headers'', Null)],
        heap_next = 11, calls = []\<rparr>"
    by (simp_all add: DeleteRequest_new_def)
  from meta_guards_standard_only [OF p, of ModelUtility 7 "[(''x'', Number 5), (''to'', Number 5)]"
      "''model''" "Number 5"]
  have 2: "PatchRequest_meta ModelUtility (PatchRequest_init 10) Null =
     Returned 10
       \<lparr>self = 10,
        metadata = Some [(''template'', Null), (''where'', Null), (''to'', Null)],
        heap_next = 11, calls = []\<rparr>"
    and 4: "PatchRequest_meta ModelUtility (PatchRequest_init 10) (Object 7 [(''model'', Number 5)]) =
     Returned 10
       \<lparr>self = 10,
        metadata = Some [(''all'', Boolean False), (''template'', Null), (''where'', Null),
                         (''to'', Null), (''count'', Boolean False), (''model'', Number 5),
                         (''headers'', Null)],
        heap_next = 11, calls = []\<rparr>"
    and 5: "PatchRequest_meta ModelUtility (PatchRequest_init 10)
        (Object 7 [(''x'', Number 5), (''to'', Number 5)]) =
     Threw (StandardMetadata ''to'') (PatchRequest_init 10)"
    by (simp_all add: PatchRequest_init_def)
  from 1 2 3 4 5 show ?thesis by blast
qed

section \<open>toJSON\<close>

lemma map_of_update_other: "k' \<noteq> k \<Longrightarrow> map_of (AList.update k v m) k' = map_of m k'"
  by (simp add: update_conv')

lemma map_of_plain_entries: "map_of (plain_entries es) k = map_of es (String k)"
  by (induction es rule: plain_entries.induct) auto

lemma toJSON_general:
  assumes "metadata s = Some m"
    and "truthy (get m ''headers'') \<longrightarrow>
           fromEntries E (Suc (heap_next s)) (get m ''headers'') = Inr flat"
  shows
   "\<exists>c. fst (Request_toJSON meth E s) = Inr (Object (heap_next s) c)
      \<and> get c ''headers'' = (if truthy (get m ''headers'') then flat else get m ''headers'')
      \<and> get c ''model'' = name_of E (get m ''model'')
      \<and> (\<forall>k. k \<notin> {''headers'', ''model'', ''method''} \<longrightarrow> map_of c k = map_of m k)"
proof -
  define withMethod where "withMethod = (\<lambda>c. case meth of None \<Rightarrow> c
                                 | Some name \<Rightarrow> AList.update ''method'' (String name) c)"
  have wm_get: "k \<noteq> ''method'' \<Longrightarrow> get (withMethod c) k = get c k" for k c
    by (cases meth) (simp_all add: withMethod_def get_update_other)
  have wm_map: "k \<noteq> ''method'' \<Longrightarrow> map_of (withMethod c) k = map_of c k" for k c
    by (cases meth) (simp_all add: withMethod_def map_of_update_other)
  define c0 where "c0 = (if truthy (get m ''headers'') then AList.update ''headers'' flat m else m)"
  define c where "c = withMethod (AList.update ''model'' (name_of E (get m ''model'')) c0)"
  have run: "fst (Request_toJSON meth E s) = Inr (Object (heap_next s) c)"
    using assms
    by (simp add: Request_toJSON_def Let_def c_def c0_def withMethod_def split: option.splits)
  have hdr: "get c ''headers'' = (if truthy (get m ''headers'') then flat else get m ''headers'')"
    by (simp add: c_def c0_def wm_get get_update_other get_update_same)
  have mdl: "get c ''model'' = name_of E (get m ''model'')"
    by (simp add: c_def wm_get get_update_same)
  have rest: "map_of c k = map_of m k" if "k \<notin> {''headers'', ''model'', ''method''}" for k
    using that by (simp add: c_def c0_def wm_map map_of_update_other)
  from run hdr mdl rest show ?thesis by (intro exI [of _ c]) simp
qed

lemma toJSON_throws:
  assumes "metadata s = Some m" and "truthy (get m ''headers'')"
    and "fromEntries E (Suc (heap_next s)) (get m ''headers'') = Inl e"
  shows "fst (Request_toJSON meth E s) = Inl e"
  using assms by (simp add: Request_toJSON_def Let_def)

text \<open>
  Claim C7. For each of the three classes, on a request that has its metadata object,
  with \<^verbatim>\<open>Objects.fromEntries\<close> on a Map as the spec describes it (\<open>Objects_fromEntries\<close>).
  When the headers are unset or a Map, \<^verbatim>\<open>toJSON()\<close> returns a new plain object in which:
  \<^verbatim>\<open>headers\<close>, when headers have been set, is a new plain object whose property \<open>k\<close> is
  what the header Map holds under the string key \<open>k\<close>, for every \<open>k\<close>, and is the unset
  value otherwise; \<^verbatim>\<open>model\<close> is the \<^verbatim>\<open>name\<close> of the stored model, the name string for a bound
  class and undefined when the model is null; every other property, but \<^verbatim>\<open>method\<close>, is
  that of the metadata. When the headers hold another truthy value (stored by the
  deprecated \<^verbatim>\<open>meta\<close>), \<^verbatim>\<open>toJSON()\<close> throws what \<^verbatim>\<open>Objects.fromEntries\<close> throws for it, or
  returns the same object with \<^verbatim>\<open>headers\<close> being what that helper returns.
\<close>

theorem toJSON_contract:
  assumes "metadata s = Some m"
    and "J \<in> {DeleteRequest_toJSON, PatchRequest_toJSON, PutRequest_toJSON}"
    and "\<forall>a b es. fromEntries E a (MapV b es) = Objects_fromEntries a (MapV b es)"
  shows
   "(\<not> truthy (get m ''headers'') \<or> instanceof_Map (get m ''headers'') \<longrightarrow>
      (\<exists>c. fst (J E s) = Inr (Object (heap_next s) c)
         \<and> (if instanceof_Map (get m ''headers'')
             then \<exists>ps. get c ''headers'' = Object (Suc (heap_next s)) ps \<and>
                    (\<forall>k. map_of ps k = header_map s (String k))
             else get c ''headers'' = get m ''headers'')
         \<and> get c ''model'' = name_of E (get m ''model'')
         \<and> (get m ''model'' = Null \<longrightarrow> get c ''model'' = Undefined)
         \<and> (\<forall>f n. get m ''model'' = Function f n \<longrightarrow> get c ''model'' = String n)
         \<and> (\<forall>k. k \<notin> {''headers'', ''model'', ''method''} \<longrightarrow> map_of c k = map_of m k)))
    \<and> (truthy (get m ''headers'') \<and> \<not> instanceof_Map (get m ''headers'') \<longrightarrow>
         (case fromEntries E (Suc (heap_next s)) (get m ''headers'') of
            Inl e \<Rightarrow> fst (J E s) = Inl e
          | Inr flat \<Rightarrow>
              (\<exists>c. fst (J E s) = Inr (Object (heap_next s) c)
                 \<and> get c ''headers'' = flat
                 \<and> get c ''model'' = name_of E (get m ''model'')
                 \<and> (get m ''model'' = Null \<longrightarrow> get c ''model'' = Undefined)
                 \<and> (\<forall>f n. get m ''model'' = Function f n \<longrightarrow> get c ''model'' = String n)
                 \<and> (\<forall>k. k \<notin> {''headers'', ''model'', ''method''} \<longrightarrow> map_of c k = map_of m k))))"
proof (intro conjI impI)
  from assms(2) obtain meth where J: "J = Request_toJSON meth"
    by (auto simp: DeleteRequest_toJSON_def PatchRequest_toJSON_def PutRequest_toJSON_def)
  {
    assume wf: "\<not> truthy (get m ''headers'') \<or> instanceof_Map (get m ''headers'')"
    show "\<exists>c. fst (J E s) = Inr (Object (heap_next s) c)
         \<and> (if instanceof_Map (get m ''headers'')
             then \<exists>ps. get c ''headers'' = Object (Suc (heap_next s)) ps \<and>
                    (\<forall>k. map_of ps k = header_map s (String k))
             else get c ''headers'' = get m ''headers'')
         \<and> get c ''model'' = name_of E (get m ''model'')
         \<and> (get m ''model'' = Null \<longrightarrow> get c ''model'' = Undefined)
         \<and> (\<forall>f n. get m ''model'' = Function f n \<longrightarrow> get c ''model'' = String n)
         \<and> (\<forall>k. k \<notin> {''headers'', ''model'', ''method''} \<longrightarrow> map_of c k = map_of m k)"
    proof (cases "instanceof_Map (get m ''headers'')")
      case True
      then obtain b es where h: "get m ''headers'' = MapV b es"
        by (cases "get m ''headers''") simp_all
      have fe: "truthy (get m ''headers'') \<longrightarrow>
           fromEntries E (Suc (heap_next s)) (get m ''headers'') =
           Inr (Object (Suc (heap_next s)) (plain_entries es))"
        using assms(3) by (simp add: h)
      have hm: "header_map s (String k) = map_of es (String k)" for k
        using assms(1) by (simp add: header_map_def h)
      from toJSON_general [OF assms(1) fe, of meth] obtain c where
        c: "fst (J E s) = Inr (Object (heap_next s) c)"
        "get c ''headers'' = Object (Suc (heap_next s)) (plain_entries es)"
        "get c ''model'' = name_of E (get m ''model'')"
        "\<forall>k. k \<notin> {''headers'', ''model'', ''method''} \<longrightarrow> map_of c k = map_of m k"
        by (auto simp: J h)
      have "\<exists>ps. get c ''headers'' = Object (Suc (heap_next s)) ps \<and>
                    (\<forall>k. map_of ps k = header_map s (String k))"
        by (intro exI [of _ "plain_entries es"]) (simp add: c(2) map_of_plain_entries hm)
      with c True show ?thesis by (intro exI [of _ c]) simp
    next
      case False
      with wf have nt: "\<not> truthy (get m ''headers'')" by simp
      then have fe: "truthy (get m ''headers'') \<longrightarrow>
           fromEntries E (Suc (heap_next s)) (get m ''headers'') = Inr Undefined" by simp
      from toJSON_general [OF assms(1) fe, of meth] obtain c where
        c: "fst (J E s) = Inr (Object (heap_next s) c)"
        "get c ''headers'' = get m ''headers''"
        "get c ''model'' = name_of E (get m ''model'')"
        "\<forall>k. k \<notin> {''headers'', ''model'', ''method''} \<longrightarrow> map_of c k = map_of m k"
        by (auto simp: J nt)
      with False show ?thesis by (intro exI [of _ c]) simp
    qed
  }
  {
    assume o: "truthy (get m ''headers'') \<and> \<not> instanceof_Map (get m ''headers'')"
    show "case fromEntries E (Suc (heap_next s)) (get m ''headers'') of
            Inl e \<Rightarrow> fst (J E s) = Inl e
          | Inr flat \<Rightarrow>
              (\<exists>c. fst (J E s) = Inr (Object (heap_next s) c)
                 \<and> get c ''headers'' = flat
                 \<and> get c ''model'' = name_of E (get m ''model'')
                 \<and> (get m ''model'' = Null \<longrightarrow> get c ''model'' = Undefined)
                 \<and> (\<forall>f n. get m ''model'' = Function f n \<longrightarrow> get c ''model'' = String n)
                 \<and> (\<forall>k. k \<notin> {''headers'', ''model'', ''method''} \<longrightarrow> map_of c k = map_of m k))"
    proof (cases "fromEntries E (Suc (heap_next s)) (get m ''headers'')")
      case (Inl e)
      with toJSON_throws [OF assms(1) conjunct1 [OF o] Inl, of meth] show ?thesis
        by (simp add: J)
    next
      case (Inr flat)
      then have fe: "truthy (get m ''headers'') \<longrightarrow>
           fromEntries E (Suc (heap_next s)) (get m ''headers'') = Inr flat" by simp
      from toJSON_general [OF assms(1) fe, of meth] obtain c where
        c: "fst (J E s) = Inr (Object (heap_next s) c)"
        "get c ''headers'' = flat"
        "get c ''model'' = name_of E (get m ''model'')"
        "\<forall>k. k \<notin> {''headers'', ''model'', ''method''} \<longrightarrow> map_of c k = map_of m k"
        using o by (auto simp: J)
      then have "\<exists>c. fst (J E s) = Inr (Object (heap_next s) c)
                 \<and> get c ''headers'' = flat
                 \<and> get c ''model'' = name_of E (get m ''model'')
                 \<and> (get m ''model'' = Null \<longrightarrow> get c ''model'' = Undefined)
                 \<and> (\<forall>f n. get m ''model'' = Function f n \<longrightarrow> get c ''model'' = String n)
                 \<and> (\<forall>k. k \<notin> {''headers'', ''model'', ''method''} \<longrightarrow> map_of c k = map_of m k)"
        by (intro exI [of _ c]) simp
      with Inr show ?thesis by simp
    qed
  }
qed

text \<open>C7 on a PatchRequest with a header and a bound model, and on a new DeleteRequest.\<close>

theorem toJSON_contract_witness:
  "(\<exists>c ps. fst (PatchRequest_toJSON ModelUtility
     \<lparr>self = 10,
      metadata = Some [(''all'', Boolean False), (''template'', Null), (''where'', Null),
                       (''to'', String ''themes''), (''count'', Boolean False),
                       (''model'', Function 100 ''BaseThemeModel''),
                       (''headers'', MapV 11 [(String ''hello'', String ''world'')])],
      heap_next = 12, calls = []\<rparr>) = Inr (Object 12 c) \<and>
      get c ''headers'' = Object 13 ps \<and>
      map_of ps ''hello'' = Some (String ''world'') \<and> map_of ps ''other'' = None \<and>
      get c ''model'' = String ''BaseThemeModel'' \<and>
      map_of c ''to'' = Some (String ''themes''))
   \<and> (\<exists>c. fst (DeleteRequest_toJSON ModelUtility (DeleteRequest_new 10)) = Inr (Object 11 c) \<and>
          get c ''headers'' = Null \<and> get c ''model'' = Undefined \<and>
          map_of c ''from'' = Some Null)"
proof -
  let ?m = "[(''all'', Boolean False), (''template'', Null), (''where'', Null),
                       (''to'', String ''themes''), (''count'', Boolean False),
                       (''model'', Function 100 ''BaseThemeModel''),
                       (''headers'', MapV 11 [(String ''hello'', String ''world'')])]"
  let ?s = "\<lparr>self = 10, metadata = Some ?m, heap_next = 12, calls = []\<rparr>"
  let ?d = "[(''all'', Boolean False), (''where'', Null), (''from'', Null),
            (''count'', Boolean False), (''model'', Null), (''headers'', Null)]"
  have ms: "metadata ?s = Some ?m" by simp
  have md: "metadata (DeleteRequest_new 10) = Some ?d" by (simp add: DeleteRequest_new_def)
  have gm: "get ?m ''headers'' = MapV 11 [(String ''hello'', String ''world'')]"
    "get ?m ''model'' = Function 100 ''BaseThemeModel''"
    "get ?d ''headers'' = Null" "get ?d ''model'' = Null"
    by (simp_all add: get_def)
  have fe: "\<forall>a b es. fromEntries ModelUtility a (MapV b es) = Objects_fromEntries a (MapV b es)"
    by (simp add: ModelUtility_def)
  have JP: "PatchRequest_toJSON \<in> {DeleteRequest_toJSON, PatchRequest_toJSON, PutRequest_toJSON}"
    and JD: "DeleteRequest_toJSON \<in> {DeleteRequest_toJSON, PatchRequest_toJSON, PutRequest_toJSON}"
    by simp_all
  have ws: "\<not> truthy (get ?m ''headers'') \<or> instanceof_Map (get ?m ''headers'')"
    and wd: "\<not> truthy (get ?d ''headers'') \<or> instanceof_Map (get ?d ''headers'')"
    unfolding gm by simp_all
  have isM: "instanceof_Map (get ?m ''headers'')" "\<not> instanceof_Map (get ?d ''headers'')"
    unfolding gm by simp_all
  have hm: "header_map ?s (String ''hello'') = Some (String ''world'')"
    "header_map ?s (String ''other'') = None"
    by (simp_all add: header_map_def get_def)
  note P = toJSON_contract [OF ms JP fe, THEN conjunct1, THEN mp, OF ws, unfolded if_P [OF isM(1)]]
  from P obtain c where c:
    "fst (PatchRequest_toJSON ModelUtility ?s) = Inr (Object (heap_next ?s) c)
     \<and> (\<exists>ps. get c ''headers'' = Object (Suc (heap_next ?s)) ps \<and>
                    (\<forall>k. map_of ps k = header_map ?s (String k)))
     \<and> get c ''model'' = name_of ModelUtility (get ?m ''model'')
     \<and> (get ?m ''model'' = Null \<longrightarrow> get c ''model'' = Undefined)
     \<and> (\<forall>f n. get ?m ''model'' = Function f n \<longrightarrow> get c ''model'' = String n)
     \<and> (\<forall>k. k \<notin> {''headers'', ''model'', ''method''} \<longrightarrow> map_of c k = map_of ?m k)" ..
  from c [THEN conjunct2, THEN conjunct1] obtain ps where
    ps: "get c ''headers'' = Object (Suc (heap_next ?s)) ps \<and>
         (\<forall>k. map_of ps k = header_map ?s (String k))" ..
  from c [THEN conjunct1] have c1: "fst (PatchRequest_toJSON ModelUtility ?s) = Inr (Object 12 c)"
    by simp
  from ps [THEN conjunct1] have c2: "get c ''headers'' = Object 13 ps" by simp
  from c [THEN conjunct2, THEN conjunct2, THEN conjunct2, THEN conjunct2, THEN conjunct1,
          THEN spec, THEN spec, THEN mp, OF gm(2)]
  have c3: "get c ''model'' = String ''BaseThemeModel''" .
  from c [THEN conjunct2, THEN conjunct2, THEN conjunct2, THEN conjunct2, THEN conjunct2,
          THEN spec, of "''to''"]
  have "map_of c ''to'' = map_of ?m ''to''" by simp
  then have c4: "map_of c ''to'' = Some (String ''themes'')" by simp
  have c5: "map_of ps ''hello'' = Some (String ''world'')" "map_of ps ''other'' = None"
    by (simp_all only: ps [THEN conjunct2, THEN spec] hm)
  note D = toJSON_contract [OF md JD fe, THEN conjunct1, THEN mp, OF wd, unfolded if_not_P [OF isM(2)]]
  from D obtain e where e:
    "fst (DeleteRequest_toJSON ModelUtility (DeleteRequest_new 10)) =
          Inr (Object (heap_next (DeleteRequest_new 10)) e)
     \<and> get e ''headers'' = get ?d ''headers''
     \<and> get e ''model'' = name_of ModelUtility (get ?d ''model'')
     \<and> (get ?d ''model'' = Null \<longrightarrow> get e ''model'' = Undefined)
     \<and> (\<forall>f n. get ?d ''model'' = Function f n \<longrightarrow> get e ''model'' = String n)
     \<and> (\<forall>k. k \<notin> {''headers'', ''model'', ''method''} \<longrightarrow> map_of e k = map_of ?d k)" ..
  from e [THEN conjunct1]
  have e1: "fst (DeleteRequest_toJSON ModelUtility (DeleteRequest_new 10)) = Inr (Object 11 e)"
    by (simp add: DeleteRequest_new_def)
  from e [THEN conjunct2, THEN conjunct1] have e2: "get e ''headers'' = Null" unfolding gm .
  from e [THEN conjunct2, THEN conjunct2, THEN conjunct2, THEN conjunct1, THEN mp, OF gm(4)]
  have e3: "get e ''model'' = Undefined" .
  from e [THEN conjunct2, THEN conjunct2, THEN conjunct2, THEN conjunct2, THEN conjunct2,
          THEN spec, of "''from''"]
  have "map_of e ''from'' = map_of ?d ''from''" by simp
  then have e4: "map_of e ''from'' = Some Null" by simp
  from c1 c2 c3 c4 c5 e1 e2 e3 e4 show ?thesis by (intro conjI exI) assumption+
qed

section \<open>PutRequest.objects\<close>

lemma strict_eq_refl: "strict_eq x x"
  by (cases x) (simp_all add: strict_eq_def)

lemma strict_eq_sym: "strict_eq x y \<Longrightarrow> strict_eq y x"
  by (auto simp: strict_eq_def split: option.splits)

lemma strict_eq_trans: "strict_eq x y \<Longrightarrow> strict_eq y z \<Longrightarrow> strict_eq x z"
  by (auto simp: strict_eq_def split: option.splits)

lemma occurrences_append:
  "occurrences (xs @ ys) v = occurrences xs v + occurrences ys v"
  by (simp add: occurrences_def)

lemma occurrences_zero: "(occurrences xs v = 0) = (\<forall>x \<in> set xs. \<not> strict_eq x v)"
  by (auto simp: occurrences_def filter_empty_conv)

lemma occurrences_push:
  assumes "\<forall>v. occurrences cur v \<le> 1" and "indexOf cur ob < 0"
  shows "\<forall>v. occurrences (cur @ [ob]) v \<le> 1"
proof
  fix v
  show "occurrences (cur @ [ob]) v \<le> 1"
  proof (cases "strict_eq ob v")
    case True
    have "\<not> strict_eq x v" if "x \<in> set cur" for x
    proof
      assume "strict_eq x v"
      with True have "strict_eq x ob" by (blast intro: strict_eq_trans strict_eq_sym)
      with that assms(2) show False by (simp add: indexOf_missing)
    qed
    then have "occurrences cur v = 0" by (simp add: occurrences_zero)
    with True show ?thesis by (simp add: occurrences_append occurrences_def)
  next
    case False
    with assms(1) [rule_format, of v] show ?thesis
      by (simp add: occurrences_append occurrences_def)
  qed
qed

lemma objects_loop_rejects:
  "\<exists>x \<in> set xs. x \<noteq> Null \<and> x \<noteq> Undefined \<and> typeof x \<noteq> TObject \<Longrightarrow>
   \<exists>cur'. objects_loop cur xs = (cur', Some InvalidObjects)"
proof (induction xs arbitrary: cur)
  case Nil
  then show ?case by simp
next
  case (Cons x xs)
  show ?case
  proof (cases "x \<noteq> Null \<and> x \<noteq> Undefined \<and> typeof x \<noteq> TObject")
    case True
    then show ?thesis by (simp add: typeof_Undefined_iff)
  next
    case False
    with Cons.prems have "\<exists>x \<in> set xs. x \<noteq> Null \<and> x \<noteq> Undefined \<and> typeof x \<noteq> TObject"
      by auto
    from Cons.IH [OF this] False show ?thesis
      by (auto simp: typeof_Undefined_iff)
  qed
qed

lemma objects_loop_stores_once:
  assumes "\<forall>x \<in> set xs. x = Null \<or> x = Undefined \<or> typeof x = TObject"
    and "\<forall>v. occurrences cur v \<le> 1"
  shows "\<exists>new. objects_loop cur xs = (cur @ new, None) \<and>
           (\<forall>v. occurrences (cur @ new) v \<le> 1) \<and>
           (\<forall>ob \<in> set xs. ob \<noteq> Null \<and> ob \<noteq> Undefined \<longrightarrow> occurrences (cur @ new) ob = 1)"
  using assms
proof (induction xs arbitrary: cur)
  case Nil
  then show ?case by simp
next
  case (Cons x xs)
  from Cons.prems have rest: "\<forall>x \<in> set xs. x = Null \<or> x = Undefined \<or> typeof x = TObject"
    and x: "x = Null \<or> x = Undefined \<or> typeof x = TObject" by auto
  define cur1 where "cur1 =
    (if x \<noteq> Null \<and> x \<noteq> Undefined \<and> indexOf cur x < 0 then cur @ [x] else cur)"
  have step: "objects_loop cur (x # xs) = objects_loop cur1 xs"
    using x by (auto simp: cur1_def typeof_Undefined_iff)
  have once: "\<forall>v. occurrences cur1 v \<le> 1"
    using Cons.prems(2) occurrences_push [of cur x] by (simp add: cur1_def)
  have ext: "\<exists>p. cur1 = cur @ p" by (simp add: cur1_def)
  have here: "x \<noteq> Null \<and> x \<noteq> Undefined \<longrightarrow> (\<exists>y \<in> set cur1. strict_eq y x)"
    by (auto simp: cur1_def indexOf_missing not_less strict_eq_refl dest: indexOf_found [THEN iffD1])
  from Cons.IH [OF rest once] obtain new where
    run: "objects_loop cur1 xs = (cur1 @ new, None)" and
    all1: "\<forall>v. occurrences (cur1 @ new) v \<le> 1" and
    each: "\<forall>ob \<in> set xs. ob \<noteq> Null \<and> ob \<noteq> Undefined \<longrightarrow> occurrences (cur1 @ new) ob = 1"
    by blast
  have "occurrences (cur1 @ new) x = 1" if "x \<noteq> Null \<and> x \<noteq> Undefined"
  proof -
    from here that obtain y where "y \<in> set cur1" "strict_eq y x" by blast
    then have "occurrences (cur1 @ new) x \<noteq> 0" by (auto simp: occurrences_zero)
    with all1 [rule_format, of x] show ?thesis by simp
  qed
  with each have each': "\<forall>ob \<in> set (x # xs). ob \<noteq> Null \<and> ob \<noteq> Undefined \<longrightarrow>
      occurrences (cur1 @ new) ob = 1" by simp
  from ext obtain p where p: "cur1 = cur @ p" by blast
  show ?case
    using step run all1 each' unfolding p
    by (intro exI [of _ "p @ new"]) simp
qed

lemma single_Null: "(length objs = Suc 0 \<and> objs ! 0 = Null) = (objs = [Null])"
  by (cases objs) auto

lemma ensure_array_stored:
  assumes "metadata s = Some m"
  shows "\<exists>a m1 n. ensure_array ''objects'' s m = ((a, stored_objects s), m1, n)"
  using assms by (cases "get m ''objects''") (simp_all add: ensure_array_def stored_objects_def)

lemma stored_objects_update:
  "stored_objects (s\<lparr>metadata := Some (AList.update ''objects'' (Array a xs) m), heap_next := n\<rparr>) = xs"
  by (simp add: stored_objects_def get_update_same)

text \<open>
  Claim C4. On a PutRequest that has its metadata object and stores no object reference
  twice: if, after flattening nested arrays, an argument is neither null nor undefined and
  its \<^verbatim>\<open>typeof\<close> is not object, \<^verbatim>\<open>objects\<close> throws the objects-argument error; otherwise it
  returns the request, still no reference is stored twice, and (unless the call is the
  clearing \<^verbatim>\<open>objects(null)\<close>) the objects stored before are kept and every object supplied is
  stored exactly once, however often this call or an earlier one supplied it. References
  are compared by address, as \<^verbatim>\<open>indexOf\<close> does.
\<close>

theorem objects_contract:
  assumes "metadata s = Some m" and "\<forall>v. occurrences (stored_objects s) v \<le> 1"
  shows
   "if \<exists>x \<in> set (flat_Infinity objs). x \<noteq> Null \<and> x \<noteq> Undefined \<and> typeof x \<noteq> TObject
    then \<exists>s'. PutRequest_objects s objs = Threw InvalidObjects s'
    else \<exists>s'. PutRequest_objects s objs = Returned (self s) s' \<and>
           (\<forall>v. occurrences (stored_objects s') v \<le> 1) \<and>
           (objs \<noteq> [Null] \<longrightarrow>
              (\<exists>new. stored_objects s' = stored_objects s @ new) \<and>
              (\<forall>ob \<in> set (flat_Infinity objs). ob \<noteq> Null \<and> ob \<noteq> Undefined \<longrightarrow>
                 occurrences (stored_objects s') ob = 1))"
proof -
  from ensure_array_stored [OF assms(1)] obtain a m1 n where
    ea: "ensure_array ''objects'' s m = ((a, stored_objects s), m1, n)" by blast
  let ?bad = "\<exists>x \<in> set (flat_Infinity objs). x \<noteq> Null \<and> x \<noteq> Undefined \<and> typeof x \<noteq> TObject"
  show ?thesis
  proof (cases ?bad)
    case True
    then have ne: "objs \<noteq> [Null]" by (auto simp: flat_Infinity_def)
    from objects_loop_rejects [OF True, of "stored_objects s"] obtain cur' where
      "objects_loop (stored_objects s) (flat_Infinity objs) = (cur', Some InvalidObjects)" by blast
    with True ne assms(1) ea show ?thesis
      by (simp add: PutRequest_objects_def single_Null)
  next
    case False
    show ?thesis
    proof (cases "objs = [Null]")
      case True
      have "\<forall>v. occurrences [] v \<le> 1" by (simp add: occurrences_def)
      with True False assms(1) ea show ?thesis
        by (simp add: PutRequest_objects_def stored_objects_update)
    next
      case ne: False
      from False have ok: "\<forall>x \<in> set (flat_Infinity objs). x = Null \<or> x = Undefined \<or> typeof x = TObject"
        by auto
      from objects_loop_stores_once [OF ok assms(2)] obtain new where
        run: "objects_loop (stored_objects s) (flat_Infinity objs) = (stored_objects s @ new, None)" and
        all1: "\<forall>v. occurrences (stored_objects s @ new) v \<le> 1" and
        each: "\<forall>ob \<in> set (flat_Infinity objs). ob \<noteq> Null \<and> ob \<noteq> Undefined \<longrightarrow>
                 occurrences (stored_objects s @ new) ob = 1" by blast
      have "PutRequest_objects s objs =
          Returned (self s) (s\<lparr>metadata := Some (AList.update ''objects'' (Array a (stored_objects s @ new)) m1),
                              heap_next := n\<rparr>)"
        using ne assms(1) ea run by (simp add: PutRequest_objects_def single_Null)
      with False ne all1 each show ?thesis
        by (simp add: stored_objects_update)
    qed
  qed
qed

text \<open>C4 on a new PutRequest: an object given twice, once inside an array; and a number.\<close>

theorem objects_contract_witness:
  "(\<exists>s'. PutRequest_objects (PutRequest_init 10)
            [Object 50 [(''ID'', Number 1)],
             Array 60 [Object 51 [], Object 50 [(''ID'', Number 1)]], Null] = Returned 10 s' \<and>
          occurrences (stored_objects s') (Object 50 [(''ID'', Number 1)]) = 1 \<and>
          occurrences (stored_objects s') (Object 51 []) = 1)
   \<and> (\<exists>s'. PutRequest_objects (PutRequest_init 10) [Object 50 [(''ID'', Number 1)], Number 3] =
          Threw InvalidObjects s')"
proof -
  let ?m = "[(''pk'', Array 11 []), (''objects'', Array 12 []), (''to'', Null),
             (''count'', Boolean False), (''model'', Null), (''headers'', Null)]"
  have m: "metadata (PutRequest_init 10) = Some ?m" by (simp add: PutRequest_init_def)
  have st: "stored_objects (PutRequest_init 10) = []"
    by (simp add: stored_objects_def PutRequest_init_def get_def)
  have once: "\<forall>v. occurrences (stored_objects (PutRequest_init 10)) v \<le> 1"
    by (simp add: st occurrences_def)
  have self: "self (PutRequest_init 10) = 10" by (simp add: PutRequest_init_def)
  have f1: "flat_Infinity [Object 50 [(''ID'', Number 1)],
             Array 60 [Object 51 [], Object 50 [(''ID'', Number 1)]], Null] =
            [Object 50 [(''ID'', Number 1)], Object 51 [], Object 50 [(''ID'', Number 1)], Null]"
    by (simp add: flat_Infinity_def)
  have f2: "flat_Infinity [Object 50 [(''ID'', Number 1)], Number 3] =
            [Object 50 [(''ID'', Number 1)], Number 3]"
    by (simp add: flat_Infinity_def)
  from objects_contract [OF m once, of "[Object 50 [(''ID'', Number 1)],
             Array 60 [Object 51 [], Object 50 [(''ID'', Number 1)]], Null]"]
  have 1: "\<exists>s'. PutRequest_objects (PutRequest_init 10)
            [Object 50 [(''ID'', Number 1)],
             Array 60 [Object 51 [], Object 50 [(''ID'', Number 1)]], Null] = Returned 10 s' \<and>
          occurrences (stored_objects s') (Object 50 [(''ID'', Number 1)]) = 1 \<and>
          occurrences (stored_objects s') (Object 51 []) = 1"
    unfolding f1 self by auto
  from objects_contract [OF m once, of "[Object 50 [(''ID'', Number 1)], Number 3]"]
  have 2: "\<exists>s'. PutRequest_objects (PutRequest_init 10) [Object 50 [(''ID'', Number 1)], Number 3] =
          Threw InvalidObjects s'"
    unfolding f2 by simp
  from 1 2 show ?thesis by blast
qed

section \<open>PutRequest.model\<close>

lemma flat1_strings: "flat1 (map String ks) = map String ks"
  by (induction ks) simp_all

lemma pk_loop_strings:
  "distinct ks \<Longrightarrow> [] \<notin> set ks \<Longrightarrow> \<forall>k \<in> set ks. String k \<notin> set cur \<Longrightarrow>
   pk_loop cur (map String ks) = (cur @ map String ks, None)"
proof (induction ks arbitrary: cur)
  case Nil
  show ?case by simp
next
  case (Cons k ks)
  have push: "indexOf cur (String k) < 0"
    using Cons.prems(3) by (auto simp: indexOf_missing strict_eq_String)
  have "pk_loop (cur @ [String k]) (map String ks) = ((cur @ [String k]) @ map String ks, None)"
    using Cons.prems by (intro Cons.IH) auto
  with push Cons.prems(2) show ?case by auto
qed

lemma pk_null:
  assumes "metadata s = Some m"
  shows "\<exists>m' a n. PutRequest_pk s [Null] = Returned (self s) (s\<lparr>metadata := Some m', heap_next := n\<rparr>) \<and>
           get m' ''pk'' = Array a [] \<and> (\<forall>k. k \<noteq> ''pk'' \<longrightarrow> get m' k = get m k)"
proof (cases "get m ''pk''")
  case (Array a xs)
  with assms show ?thesis
    by (intro exI [of _ "AList.update ''pk'' (Array (heap_next s) []) m"] exI [of _ "heap_next s"]
          exI [of _ "Suc (heap_next s)"])
       (simp add: PutRequest_pk_def ensure_array_def get_update_same get_update_other)
qed (use assms in \<open>intro exI [of _ "AList.update ''pk'' (Array (Suc (heap_next s)) []) m"]
          exI [of _ "Suc (heap_next s)"] exI [of _ "Suc (Suc (heap_next s))"],
       simp add: PutRequest_pk_def ensure_array_def get_update_same get_update_other\<close>)+

lemma pk_strings:
  assumes "metadata s = Some m" and "get m ''pk'' = Array a []"
    and "distinct ks" and "[] \<notin> set ks"
  shows "PutRequest_pk s (map String ks) =
           Returned (self s) (s\<lparr>metadata := Some (AList.update ''pk'' (Array a (map String ks)) m),
                               heap_next := heap_next s\<rparr>)"
  using assms pk_loop_strings [of ks "[]"]
  by (simp add: PutRequest_pk_def ensure_array_def flat1_strings cong: conj_cong)

text \<open>
  Claim C5. On a PutRequest that has its metadata object, whatever its \<^verbatim>\<open>pk\<close> entry holds:
  for a valid (and so truthy) model type whose resource name is a string or null and
  whose primary keys, as \<^verbatim>\<open>ModelUtility.pk\<close> lists them, are property names (non-empty
  strings, each listed once), \<^verbatim>\<open>model(modelType)\<close> returns the request and leaves
  \<^verbatim>\<open>metadata.pk\<close> holding exactly those names, in that order.
\<close>

theorem put_model_replaces_pk:
  assumes "metadata s = Some m"
    and "isValidType E modelType" and "truthy modelType"
    and "resource E modelType ''put'' = Null \<or> typeof (resource E modelType ''put'') = TString"
    and "pk E modelType = map String ks" and "distinct ks" and "[] \<notin> set ks"
  shows "\<exists>s' m' a. PutRequest_model E s modelType = Returned (self s) s' \<and>
           metadata s' = Some m' \<and> get m' ''pk'' = Array a (map String ks)"
proof -
  define s1 where "s1 = s\<lparr>metadata := Some (AList.update ''model'' modelType m)\<rparr>"
  define m2 where "m2 = AList.update ''to'' (resource E modelType ''put'') (AList.update ''model'' modelType m)"
  define s2 where "s2 = s1\<lparr>metadata := Some m2\<rparr>"
  have to: "PutRequest_to s1 (resource E modelType ''put'') = Returned (self s) s2"
    using assms(4) by (auto simp: PutRequest_to_def assign_def s1_def s2_def m2_def)
  have ms2: "metadata s2 = Some m2" by (simp add: s2_def)
  from pk_null [OF ms2] obtain m3 a n where
    clear: "PutRequest_pk s2 [Null] = Returned (self s2) (s2\<lparr>metadata := Some m3, heap_next := n\<rparr>)"
    and empty: "get m3 ''pk'' = Array a []" by blast
  define s3 where "s3 = s2\<lparr>metadata := Some m3, heap_next := n\<rparr>"
  have ms3: "metadata s3 = Some m3" by (simp add: s3_def)
  define s4 where "s4 = s3\<lparr>metadata := Some (AList.update ''pk'' (Array a (map String ks)) m3),
                               heap_next := heap_next s3\<rparr>"
  have fill: "PutRequest_pk s3 (pk E modelType) = Returned (self s3) s4"
    unfolding assms(5) s4_def by (rule pk_strings [OF ms3 empty assms(6,7)])
  have selfs: "self s2 = self s" "self s3 = self s" "self s4 = self s"
    by (simp_all add: s1_def s2_def s3_def s4_def)
  have "PutRequest_model E s modelType = Returned (self s) s4"
    using assms(1,2,3) to clear fill selfs
    by (simp add: PutRequest_model_def Let_def and_then_def s1_def [symmetric] s3_def [symmetric])
  moreover have "metadata s4 = Some (AList.update ''pk'' (Array a (map String ks)) m3)"
    by (simp add: s4_def)
  ultimately show ?thesis
    by (intro exI [of _ s4] exI [of _ "AList.update ''pk'' (Array a (map String ks)) m3"] exI [of _ a])
       (simp add: get_update_same)
qed

text \<open>C5 on a PutRequest with two primary keys set by hand, bound to BaseThemeModel.\<close>

theorem put_model_replaces_pk_witness:
  "\<exists>s' m' a.
     PutRequest_model ModelUtility
       \<lparr>self = 10,
        metadata = Some [(''pk'', Array 13 [String ''Name'', String ''HexCode'']),
                         (''objects'', Array 12 []), (''to'', String ''someresource''),
                         (''count'', Boolean False), (''model'', Null), (''headers'', Null)],
        heap_next = 14, calls = []\<rparr> BaseThemeModel = Returned 10 s' \<and>
     metadata s' = Some m' \<and> get m' ''pk'' = Array a [String ''ID'']"
proof -
  let ?m = "[(''pk'', Array 13 [String ''Name'', String ''HexCode'']),
             (''objects'', Array 12 []), (''to'', String ''someresource''),
             (''count'', Boolean False), (''model'', Null), (''headers'', Null)]"
  let ?s = "\<lparr>self = 10, metadata = Some ?m, heap_next = 14, calls = []\<rparr>"
  have 1: "metadata ?s = Some ?m" by simp
  have 2: "isValidType ModelUtility BaseThemeModel" "truthy BaseThemeModel"
    by (simp_all add: ModelUtility_def BaseThemeModel_def)
  have 3: "resource ModelUtility BaseThemeModel ''put'' = Null \<or>
           typeof (resource ModelUtility BaseThemeModel ''put'') = TString"
    by (simp add: ModelUtility_def)
  have 4: "pk ModelUtility BaseThemeModel = map String [''ID'']" by (simp add: ModelUtility_def)
  have 5: "distinct [''ID'']" "[] \<notin> set [''ID'']" by simp_all
  from put_model_replaces_pk [OF 1 2 3 4 5] show ?thesis by simp
qed

section \<open>Fluent chaining\<close>

lemma assign_this: "assign k v s = Returned r s' \<Longrightarrow> r = self s \<and> self s' = self s"
  by (auto simp: assign_def split: option.splits)

lemma count_this: "Request_count s v = Returned r s' \<Longrightarrow> r = self s \<and> self s' = self s"
  by (auto simp: Request_count_def dest: assign_this split: if_splits)

lemma all_this: "Request_all s args = Returned r s' \<Longrightarrow> r = self s \<and> self s' = self s"
  by (auto simp: Request_all_def Let_def dest: assign_this)

lemma where_this: "Request_where E s v = Returned r s' \<Longrightarrow> r = self s \<and> self s' = self s"
  by (cases v) (auto simp: Request_where_def Let_def dest: assign_this split: option.splits if_splits)

lemma headers_this: "Request_headers E s v = Returned r s' \<Longrightarrow> r = self s \<and> self s' = self s"
  by (auto simp: Request_headers_def Let_def split: option.splits if_splits prod.splits)

lemma meta_this: "Request_meta S E s v = Returned r s' \<Longrightarrow> r = self s \<and> self s' = self s"
  by (auto simp: Request_meta_def split: option.splits if_splits)

lemma from_this: "DeleteRequest_from s v = Returned r s' \<Longrightarrow> r = self s \<and> self s' = self s"
  by (auto simp: DeleteRequest_from_def dest: assign_this split: if_splits)

lemma patch_to_this: "PatchRequest_to s v = Returned r s' \<Longrightarrow> r = self s \<and> self s' = self s"
  by (auto simp: PatchRequest_to_def dest: assign_this split: if_splits)

lemma put_to_this: "PutRequest_to s v = Returned r s' \<Longrightarrow> r = self s \<and> self s' = self s"
  by (auto simp: PutRequest_to_def dest: assign_this split: if_splits)

lemma template_this: "PatchRequest_template s v = Returned r s' \<Longrightarrow> r = self s \<and> self s' = self s"
  by (auto simp: PatchRequest_template_def dest: assign_this split: if_splits)

lemma delete_clear_this: "DeleteRequest_clear s = Returned r s' \<Longrightarrow> r = self s \<and> self s' = self s"
  by (auto simp: DeleteRequest_clear_def Let_def)

lemma patch_clear_this: "PatchRequest_clear s = Returned r s' \<Longrightarrow> r = self s \<and> self s' = self s"
  by (auto simp: PatchRequest_clear_def Let_def)

lemma put_clear_this: "PutRequest_clear s = Returned r s' \<Longrightarrow> r = self s \<and> self s' = self s"
  by (auto simp: PutRequest_clear_def Let_def)

lemma pk_this: "PutRequest_pk s args = Returned r s' \<Longrightarrow> r = self s \<and> self s' = self s"
  by (auto simp: PutRequest_pk_def split: option.splits if_splits prod.splits)

lemma objects_this: "PutRequest_objects s args = Returned r s' \<Longrightarrow> r = self s \<and> self s' = self s"
  by (auto simp: PutRequest_objects_def split: option.splits if_splits prod.splits)

lemma delete_model_this:
  "DeleteRequest_model E s v = Returned r s' \<Longrightarrow> r = self s \<and> self s' = self s"
  by (auto simp: DeleteRequest_model_def Let_def and_then_def
           split: option.splits if_splits outcome.splits dest!: from_this)

lemma patch_model_this:
  "PatchRequest_model E s v = Returned r s' \<Longrightarrow> r = self s \<and> self s' = self s"
  by (auto simp: PatchRequest_model_def Let_def and_then_def
           split: option.splits if_splits outcome.splits dest!: patch_to_this)

lemma put_model_this:
  "PutRequest_model E s v = Returned r s' \<Longrightarrow> r = self s \<and> self s' = self s"
  by (auto simp: PutRequest_model_def Let_def and_then_def
           split: option.splits if_splits outcome.splits dest!: put_to_this pk_this)

text \<open>
  Claim C8. Whatever builder method a request class has (\<open>call\<close> lists them class by
  class) and whatever the arguments: if the call does not throw, the reference it returns
  is the address of the request it was invoked on, and the request is still that
  instance afterwards.
\<close>

theorem builder_methods_return_this:
  "call E c s b = Some (Returned r s') \<Longrightarrow> r = self s \<and> self s' = self s"
  by (cases c; cases b)
     (auto simp: DeleteRequest_meta_def PatchRequest_meta_def PutRequest_meta_def
           dest: count_this all_this where_this headers_this meta_this from_this patch_to_this
                 put_to_this template_this delete_clear_this patch_clear_this put_clear_this
                 pk_this objects_this delete_model_this patch_model_this put_model_this)

text \<open>C8 on one call per class: a callback filter, a resource name, a payload object.\<close>

theorem builder_methods_return_this_witness:
  "call ModelUtility DeleteRequest (DeleteRequest_new 10) (Where (Function 20 ''cb'')) =
     Some (Returned 10
       \<lparr>self = 10,
        metadata = Some [(''all'', Boolean False), (''where'', FilterV 11), (''from'', Null),
                         (''count'', Boolean False), (''model'', Null), (''headers'', Null)],
        heap_next = 12, calls = [(20, [FilterV 11])]\<rparr>)
   \<and> 10 = self (DeleteRequest_new 10)
   \<and> call ModelUtility PatchRequest (PatchRequest_init 10) (To (String ''Goose'')) =
     Some (Returned 10
       \<lparr>self = 10,
        metadata = Some [(''all'', Boolean False), (''template'', Null), (''where'', Null),
                         (''to'', String ''Goose''), (''count'', Boolean False),
                         (''model'', Null), (''headers'', Null)],
        heap_next = 11, calls = []\<rparr>)
   \<and> 10 = self (PatchRequest_init 10)
   \<and> call ModelUtility PutRequest (PutRequest_init 10) (Objects [Object 50 []]) =
     Some (Returned 10
       \<lparr>self = 10,
        metadata = Some [(''pk'', Array 11 []), (''objects'', Array 12 [Object 50 []]),
                         (''to'', Null), (''count'', Boolean False), (''model'', Null),
                         (''headers'', Null)],
        heap_next = 13, calls = []\<rparr>)
   \<and> 10 = self (PutRequest_init 10)"
proof -
  have d: "call ModelUtility DeleteRequest (DeleteRequest_new 10) (Where (Function 20 ''cb'')) =
     Some (Returned 10
       \<lparr>self = 10,
        metadata = Some [(''all'', Boolean False), (''where'', FilterV 11), (''from'', Null),
                         (''count'', Boolean False), (''model'', Null), (''headers'', Null)],
        heap_next = 12, calls = [(20, [FilterV 11])]\<rparr>)"
    by (simp add: Request_where_def DeleteRequest_new_def ModelUtility_def Let_def)
  have p: "call ModelUtility PatchRequest (PatchRequest_init 10) (To (String ''Goose'')) =
     Some (Returned 10
       \<lparr>self = 10,
        metadata = Some [(''all'', Boolean False), (''template'', Null), (''where'', Null),
                         (''to'', String ''Goose''), (''count'', Boolean False),
                         (''model'', Null), (''headers'', Null)],
        heap_next = 11, calls = []\<rparr>)"
    by (simp add: PatchRequest_to_def PatchRequest_init_def assign_def)
  have u: "call ModelUtility PutRequest (PutRequest_init 10) (Objects [Object 50 []]) =
     Some (Returned 10
       \<lparr>self = 10,
        metadata = Some [(''pk'', Array 11 []), (''objects'', Array 12 [Object 50 []]),
                         (''to'', Null), (''count'', Boolean False), (''model'', Null),
                         (''headers'', Null)],
        heap_next = 13, calls = []\<rparr>)"
    by (simp add: PutRequest_objects_def PutRequest_init_def ensure_array_def get_def
          flat_Infinity_def indexOf_def)
  from builder_methods_return_this [OF d] builder_methods_return_this [OF p]
    builder_methods_return_this [OF u] d p u
  show ?thesis by simp
qed

section \<open>Where the code departs from its documentation\<close>

text \<open>
  What the three \<^verbatim>\<open>model\<close> methods and \<^verbatim>\<open>clear\<close> do in general, whatever \<^verbatim>\<open>ModelUtility\<close>
  returns: binding sets the resource name to the model's, whatever it was before, and
  \<^verbatim>\<open>clear\<close> leaves \<^verbatim>\<open>count\<close> and \<^verbatim>\<open>model\<close> (and, on a PatchRequest, \<^verbatim>\<open>all\<close>) as they were.
\<close>

lemma model_sets_resource_name:
  assumes "metadata s = Some m" and "isValidType E modelType" and "truthy modelType"
  shows "resource E modelType ''delete'' = String n \<Longrightarrow>
           DeleteRequest_model E s modelType =
             Returned (self s)
               (s\<lparr>metadata := Some (AList.update ''from'' (String n)
                                      (AList.update ''model'' modelType m))\<rparr>)"
    and "resource E modelType ''patch'' = String n \<Longrightarrow>
           PatchRequest_model E s modelType =
             Returned (self s)
               (s\<lparr>metadata := Some (AList.update ''to'' (String n)
                                      (AList.update ''model'' modelType m))\<rparr>)"
  using assms
  by (auto simp: DeleteRequest_model_def PatchRequest_model_def DeleteRequest_from_def
        PatchRequest_to_def assign_def and_then_def Let_def)

lemma clear_keeps_fields:
  assumes "metadata s = Some m" and "k \<in> {''count'', ''model''}"
  shows "\<exists>s' m'. DeleteRequest_clear s = Returned (self s) s' \<and> metadata s' = Some m' \<and>
           get m' k = get m k"
    and "\<exists>s' m'. PatchRequest_clear s = Returned (self s) s' \<and> metadata s' = Some m' \<and>
           get m' k = get m k \<and> get m' ''all'' = get m ''all''"
    and "\<exists>s' m'. PutRequest_clear s = Returned (self s) s' \<and> metadata s' = Some m' \<and>
           get m' k = get m k"
  using assms
  by (auto simp: DeleteRequest_clear_def PatchRequest_clear_def PutRequest_clear_def Let_def
        get_update_other)

text \<open>
  Claim C1 fails on the code. The documentation of \<^verbatim>\<open>model\<close> in the three classes says it
  applies the model's configuration "not already defined" to the request, and the
  repository's test expects \<^verbatim>\<open>new PatchRequest().to('someresource').model(MyModel)\<close> to keep
  \<^verbatim>\<open>'someresource'\<close>; the code calls \<^verbatim>\<open>to\<close> (or \<^verbatim>\<open>from\<close>) with the model's resource name
  unconditionally. Evaluated on each class, with BaseThemeModel (resource \<^verbatim>\<open>'themes'\<close>):
  the resource name set by hand is replaced.
\<close>

theorem model_overwrites_resource_name:
  "and_then (PatchRequest_to (PatchRequest_init 10) (String ''someresource''))
     (\<lambda>s. PatchRequest_model ModelUtility s BaseThemeModel) =
   Returned 10
     \<lparr>self = 10,
      metadata = Some [(''all'', Boolean False), (''template'', Null), (''where'', Null),
                       (''to'', String ''themes''), (''count'', Boolean False),
                       (''model'', Function 100 ''BaseThemeModel''), (''headers'', Null)],
      heap_next = 11, calls = []\<rparr>
   \<and> and_then (DeleteRequest_from (DeleteRequest_new 10) (String ''someresource''))
     (\<lambda>s. DeleteRequest_model ModelUtility s BaseThemeModel) =
   Returned 10
     \<lparr>self = 10,
      metadata = Some [(''all'', Boolean False), (''where'', Null),
                       (''from'', String ''themes''), (''count'', Boolean False),
                       (''model'', Function 100 ''BaseThemeModel''), (''headers'', Null)],
      heap_next = 11, calls = []\<rparr>
   \<and> and_then (PutRequest_to (PutRequest_init 10) (String ''someresource''))
     (\<lambda>s. PutRequest_model ModelUtility s BaseThemeModel) =
   Returned 10
     \<lparr>self = 10,
      metadata = Some [(''pk'', Array 13 [String ''ID'']), (''objects'', Array 12 []),
                       (''to'', String ''themes''), (''count'', Boolean False),
                       (''model'', Function 100 ''BaseThemeModel''), (''headers'', Null)],
      heap_next = 14, calls = []\<rparr>"
  by (simp add: and_then_def PatchRequest_to_def PatchRequest_init_def PatchRequest_model_def
        DeleteRequest_from_def DeleteRequest_new_def DeleteRequest_model_def
        PutRequest_to_def PutRequest_init_def PutRequest_model_def PutRequest_pk_def
        ensure_array_def indexOf_def strict_eq_def get_def
        assign_def ModelUtility_def BaseThemeModel_def Let_def)

text \<open>
  Claim C2 fails on the code. \<^verbatim>\<open>clear()\<close> is documented as "Clears all configured
  metadata on the request, resetting it to a default state", and DeleteRequest's resets
  \<^verbatim>\<open>all\<close>; but none of the three resets \<^verbatim>\<open>count\<close> or \<^verbatim>\<open>model\<close>, and PatchRequest's does not
  reset \<^verbatim>\<open>all\<close>. Evaluated: after \<^verbatim>\<open>all().count().model(BaseThemeModel).clear()\<close> a
  PatchRequest still has all = true, count = true and the model bound; after
  \<^verbatim>\<open>count().clear()\<close> a DeleteRequest and a PutRequest still have count = true.
\<close>

theorem clear_keeps_count_model_all:
  "and_then (Request_all (PatchRequest_init 10) [])
     (\<lambda>s. and_then (Request_count s Undefined)
        (\<lambda>s. and_then (PatchRequest_model ModelUtility s BaseThemeModel) PatchRequest_clear)) =
   Returned 10
     \<lparr>self = 10,
      metadata = Some [(''all'', Boolean True), (''template'', Null), (''where'', Null),
                       (''to'', Null), (''count'', Boolean True),
                       (''model'', Function 100 ''BaseThemeModel''), (''headers'', Null)],
      heap_next = 11, calls = []\<rparr>
   \<and> and_then (Request_count (DeleteRequest_new 10) Undefined) DeleteRequest_clear =
   Returned 10
     \<lparr>self = 10,
      metadata = Some [(''all'', Boolean False), (''where'', Null), (''from'', Null),
                       (''count'', Boolean True), (''model'', Null), (''headers'', Null)],
      heap_next = 11, calls = []\<rparr>
   \<and> and_then (Request_count (PutRequest_init 10) Undefined) PutRequest_clear =
   Returned 10
     \<lparr>self = 10,
      metadata = Some [(''pk'', Array 13 []), (''objects'', Array 14 []), (''to'', Null),
                       (''count'', Boolean True), (''model'', Null), (''headers'', Null)],
      heap_next = 15, calls = []\<rparr>"
  by (simp add: and_then_def Request_all_def Request_count_def PatchRequest_init_def
        PatchRequest_model_def PatchRequest_to_def PatchRequest_clear_def
        DeleteRequest_new_def DeleteRequest_clear_def PutRequest_init_def PutRequest_clear_def
        assign_def ModelUtility_def BaseThemeModel_def Let_def)

end
